theory Spec2Isabelle
  imports Complex_Main "HOL-Library.Sublist"
begin

section \<open>MachUpX wing segments: a shallow embedding of \<open>machupX/wing_segment.py\<close>\<close>

text \<open>
  The class \<open>WingSegment\<close> is embedded method by method. Conventions:

  \<^item> numpy's and Python's floats are modelled as the real numbers, and arithmetic on them
    is exact, with one exception: in \<open>_airfoil_interpolator\<close>, whose result a property
    compares with another value for equality, the result of every arithmetic operation
    passes through a rounding function, a parameter of the model (the identity is exact
    arithmetic). Everywhere else the rounding of IEEE doubles is outside the model, and a
    result is a statement about the exact-arithmetic reading of the code.
  \<^item> a raised exception is a value \<open>Inl e\<close> of the result type \<open>error + 'a\<close>.
  \<^item> a leading underscore of a Python name is dropped (\<open>_initialize_params\<close> becomes
    \<open>initialize_params\<close>); a name that would clash with a variable or a library
    constant gets a prefix or suffix.
  \<^item> what the class takes from outside (the helper \<open>import_value\<close>, the airfoil objects,
    \<open>scipy.integrate.quad\<close>) is described where it enters the model.
\<close>

subsection \<open>Errors and results\<close>

datatype error =
    IOError string
  | RuntimeError string
  | ValueError string
  | KeyError string
  | AttributeError string
  | IndexError string
  | TypeError string
  | ZeroDivisionError
  | NonFinite string

text \<open>
  \<open>NonFinite\<close> is not a Python exception: it marks the places where numpy goes on with
  \<open>nan\<close> or \<open>inf\<close> (a division by zero of floats in an array, \<open>arccos\<close> outside
  \<open>[-1, 1]\<close>). The reals have no such value, so the model stops there.
\<close>

type_synonym 'a result = "error + 'a"

definition bind :: "'a result \<Rightarrow> ('a \<Rightarrow> 'b result) \<Rightarrow> 'b result" where
  "bind m f = (case m of Inl e \<Rightarrow> Inl e | Inr v \<Rightarrow> f v)"

fun mapM :: "('a \<Rightarrow> 'b result) \<Rightarrow> 'a list \<Rightarrow> 'b list result" where
  "mapM f [] = Inr []"
| "mapM f (x # xs) = bind (f x) (\<lambda>y. bind (mapM f xs) (\<lambda>ys. Inr (y # ys)))"

type_synonym vec3 = "real \<times> real \<times> real"

definition vadd :: "vec3 \<Rightarrow> vec3 \<Rightarrow> vec3" where
  "vadd u v = (case u of (a, b, c) \<Rightarrow> case v of (d, e, f) \<Rightarrow> (a + d, b + e, c + f))"

subsection \<open>numpy\<close>

text \<open>
  \<open>np.linspace(start, stop, num)\<close> with the default \<open>endpoint=True\<close>: \<open>div = num - 1\<close>,
  the samples are \<open>arange(num) * step + start\<close> with \<open>step = delta / div\<close> (for
  \<open>div = 0\<close>, \<open>arange(num) * delta + start\<close>), and for \<open>num > 1\<close> the last sample is
  overwritten with \<open>stop\<close>.
\<close>

definition linspace :: "real \<Rightarrow> real \<Rightarrow> nat \<Rightarrow> real list" where
  "linspace start stop num =
     (let dv = num - 1;
          delta = stop - start;
          y0 = map real [0..<num];
          y1 = (if 0 < dv then
                  (let step = delta / real dv
                   in if step = 0 then map (\<lambda>v. v / real dv * delta) y0
                      else map (\<lambda>v. v * step) y0)
                else map (\<lambda>v. v * delta) y0);
          y2 = map (\<lambda>v. v + start) y1
      in if 1 < num then y2[num - 1 := stop] else y2)"

definition radians :: "real \<Rightarrow> real" where
  "radians x = x * pi / 180"

subsection \<open>The input dictionaries\<close>

text \<open>
  Modelled from the spec: \<open>import_value\<close> of the module \<open>helpers\<close>, which is not among
  the sources. The specification takes unit conversion and the parsing of declared values
  (constant, table or special distribution) to be done before a value reaches the segment.
  So an entry of a dictionary is the value \<open>import_value\<close> returns for it: a float
  (\<open>Constant\<close>), a table of rows \<open>(span, value)\<close> (\<open>Table\<close>), for the chord also the
  elliptic distribution with its root chord, for the airfoil a name or a table of rows
  \<open>(span, name)\<close>; and a key that is not in the dictionary is \<open>None\<close>, for which the caller's
  default is taken.
\<close>

datatype span_data = Constant real | Table "(real \<times> real) list"

datatype chord_data = Linear span_data | Elliptic real

datatype airfoil_spec = AirfoilName string | AirfoilTable "(real \<times> string) list"

record connect_dict =
  c_ID :: "int option"
  c_location :: "string option"
  c_dx :: "real option"
  c_dy :: "real option"
  c_dz :: "real option"
  c_y_offset :: "real option"

record control_dict =
  cs_root_span :: "real option"
  cs_tip_span :: "real option"
  cs_chord_fraction :: "span_data option"
  cs_is_sealed :: "bool option"
  cs_control_mixing :: "(string \<rightharpoonup> real) option"

record input_dict =
  in_ID :: "int option"
  in_is_main :: "bool option"
  in_semispan :: "real option"
  in_grid :: "nat option"
  in_use_clustering :: "bool option"
  in_connect_to :: "connect_dict option"
  in_twist :: "span_data option"
  in_dihedral :: "span_data option"
  in_sweep :: "span_data option"
  in_chord :: "chord_data option"
  in_ac_offset :: "span_data option"
  in_airfoil :: "airfoil_spec option"
  in_control_surface :: "control_dict option"

text \<open>\<open>d.get(key, default)\<close> on an optional entry.\<close>

definition get_or :: "'a option \<Rightarrow> 'a \<Rightarrow> 'a" where
  "get_or v dflt = (case v of None \<Rightarrow> dflt | Some x \<Rightarrow> x)"

definition empty_connect :: connect_dict where
  "empty_connect = \<lparr>c_ID = None, c_location = None, c_dx = None, c_dy = None,
                     c_dz = None, c_y_offset = None\<rparr>"

subsection \<open>\<open>_initialize_params\<close>\<close>

record seg_params =
  is_main :: "bool option"
  seg_b :: "real option"
  seg_N :: nat
  use_clustering :: bool
  delta_origin :: vec3
  node_span_locs :: "real list"
  cp_span_locs :: "real list"

text \<open>
  Lines 90 to 102: the node and control-point span fractions before the reversal. The
  grid count is a Python int; \<open>np.pi/self._N\<close> and \<open>1/(2*self._N)\<close> raise
  \<open>ZeroDivisionError\<close> for \<open>N = 0\<close> (a negative count makes \<open>np.linspace\<close> raise, and
  is excluded by the type \<open>nat\<close>).
\<close>

definition span_locs :: "bool \<Rightarrow> nat \<Rightarrow> (real list \<times> real list) result" where
  "span_locs clustering n =
     (if clustering then
        (let node_theta_space = linspace 0 pi (n + 1);
             nodes = map (\<lambda>t. (1 - cos t) / 2) node_theta_space
         in if n = 0 then Inl ZeroDivisionError
            else
              (let cp_theta_space =
                     map (\<lambda>t. t - pi / (2 * real n)) (linspace (pi / real n) pi n);
                   cps = map (\<lambda>t. (1 - cos t) / 2) cp_theta_space
               in Inr (nodes, cps)))
      else
        (let nodes = linspace 0 1 (n + 1)
         in if n = 0 then Inl ZeroDivisionError
            else Inr (nodes, linspace (1 / (2 * real n)) (1 - 1 / (2 * real n)) n)))"

definition initialize_params :: "input_dict \<Rightarrow> string \<Rightarrow> seg_params result" where
  "initialize_params inp sd =
     (let n = get_or (in_grid inp) 40;
          clustering = get_or (in_use_clustering inp) True;
          connect = get_or (in_connect_to inp) empty_connect;
          dx = get_or (c_dx connect) 0;
          dy = get_or (c_dy connect) 0;
          dz = get_or (c_dz connect) 0;
          dy' = (if sd = ''left'' then dy - get_or (c_y_offset connect) 0
                 else dy + get_or (c_y_offset connect) 0)
      in bind (span_locs clustering n) (\<lambda>(nodes, cps).
           Inr \<lparr>is_main = in_is_main inp, seg_b = in_semispan inp, seg_N = n,
                use_clustering = clustering, delta_origin = (dx, dy', dz),
                node_span_locs = (if sd = ''left'' then rev nodes else nodes),
                cp_span_locs = (if sd = ''left'' then rev cps else cps)\<rparr>))"

text \<open>All entries of an array of span fractions lie in \<open>[0, 1]\<close>.\<close>

definition in_unit :: "real list \<Rightarrow> bool" where
  "in_unit xs = list_all (\<lambda>x. 0 \<le> x \<and> x \<le> 1) xs"

subsection \<open>Scalars, arrays and \<open>np.interp\<close>\<close>

text \<open>
  What a span argument or a getter's result can be: a Python float, or a numpy array.
  The arrays of span fractions of this class are one-dimensional (\<open>_cp_span_locs\<close>,
  \<open>_node_span_locs\<close>, \<open>np.linspace\<close>), so an array is the list of its entries and its
  shape is \<open>(length,)\<close>.
\<close>

datatype pyval = PyFloat real | NdArray "real list"

text \<open>\<open>.item()\<close> of an array: its only entry, \<open>ValueError\<close> for any other size.\<close>

definition item :: "pyval \<Rightarrow> real result" where
  "item v = (case v of
       PyFloat x \<Rightarrow> Inr x
     | NdArray xs \<Rightarrow> (case xs of [x] \<Rightarrow> Inr x
         | _ \<Rightarrow> Inl (ValueError ''can only convert an array of size 1 to a Python scalar'')))"

text \<open>The shape of an array, as the tuple \<open>span.shape\<close>; a float has none.\<close>

definition shape :: "pyval \<Rightarrow> nat list option" where
  "shape v = (case v of PyFloat x \<Rightarrow> None | NdArray xs \<Rightarrow> Some [length xs])"

text \<open>\<open>np.full(shape, value)\<close> for the shape of a one-dimensional array.\<close>

definition np_full :: "nat \<Rightarrow> real \<Rightarrow> pyval" where
  "np_full n v = NdArray (replicate n v)"

text \<open>
  \<open>np.interp(x, xp, fp)\<close> at one point, the table being the rows \<open>(xp[k], fp[k])\<close>, with
  \<open>xp\<close> increasing (numpy does not check this, and its result is meaningless otherwise).
  Below the first sample point the result is \<open>fp[0]\<close>, above the last it is \<open>fp[-1]\<close>; in
  between, with \<open>j\<close> the last index such that \<open>xp[j] \<le> x\<close>, it is \<open>fp[j]\<close> when
  \<open>xp[j] = x\<close> or \<open>j\<close> is the last index, and
  \<open>(fp[j+1] - fp[j]) / (xp[j+1] - xp[j]) * (x - xp[j]) + fp[j]\<close> otherwise.
\<close>

fun interp_walk :: "real \<Rightarrow> real \<times> real \<Rightarrow> (real \<times> real) list \<Rightarrow> real" where
  "interp_walk x (x0, f0) [] = f0"
| "interp_walk x (x0, f0) ((x1, f1) # rest) =
     (if x1 \<le> x then interp_walk x (x1, f1) rest
      else if x0 = x then f0
      else (f1 - f0) / (x1 - x0) * (x - x0) + f0)"

definition interp1 :: "real \<times> real \<Rightarrow> (real \<times> real) list \<Rightarrow> real \<Rightarrow> real" where
  "interp1 p ps x =
     (if x < fst p then snd p
      else if fst (last (p # ps)) < x then snd (last (p # ps))
      else interp_walk x p ps)"

text \<open>On an array; numpy refuses an empty table before it looks at \<open>x\<close>.\<close>

definition np_interp :: "real list \<Rightarrow> (real \<times> real) list \<Rightarrow> real list result" where
  "np_interp xs tbl =
     (case tbl of
        [] \<Rightarrow> Inl (ValueError ''array of sample points is empty'')
      | p # ps \<Rightarrow> Inr (map (interp1 p ps) xs))"

subsection \<open>\<open>_build_getter_linear_f_of_span\<close>, \<open>_build_elliptic_chord_dist\<close>, \<open>_initialize_getters\<close>\<close>

text \<open>
  The two closures \<open>_build_getter_linear_f_of_span\<close> returns, each with what it
  captures: the constant stored in \<open>self._getter_data[name]\<close> (in radians already for
  angular data), or the stored table and the flag \<open>angular_data\<close>. Nothing else writes
  \<open>self._getter_data\<close>, so the entry a closure reads is the one stored when it was built.
\<close>

datatype getter = ConstGetter real | TableGetter "(real \<times> real) list" bool

definition build_getter_linear_f_of_span :: "span_data \<Rightarrow> bool \<Rightarrow> getter" where
  "build_getter_linear_f_of_span dat angular_data =
     (case dat of
        Constant v \<Rightarrow> ConstGetter (if angular_data then radians v else v)
      | Table t \<Rightarrow> TableGetter t angular_data)"

text \<open>
  Calling a getter. A float is turned into the array of shape \<open>(1,)\<close> by
  \<open>np.asarray(span)[np.newaxis]\<close>, and \<open>converted\<close> is set; the result \<open>data\<close> is computed
  from the array; at the end \<open>converted\<close> only rebinds the local \<open>span\<close> to \<open>span.item()\<close>,
  and \<open>data\<close> is returned as it is.
\<close>

definition call_getter :: "getter \<Rightarrow> pyval \<Rightarrow> pyval result" where
  "call_getter g spn =
     (let converted = (case spn of PyFloat x \<Rightarrow> True | NdArray xs \<Rightarrow> False);
          span1 = (case spn of PyFloat x \<Rightarrow> [x] | NdArray xs \<Rightarrow> xs)
      in bind (case g of
                 ConstGetter v \<Rightarrow> Inr (np_full (length span1) v)
               | TableGetter t angular_data \<Rightarrow>
                   bind (np_interp span1
                           (if angular_data then map (\<lambda>(s, v). (s, radians v)) t else t))
                        (\<lambda>ys. Inr (NdArray ys)))
             (\<lambda>dat. if converted then bind (item (NdArray span1)) (\<lambda>span2. Inr dat)
                    else Inr dat))"

text \<open>
  The elliptic chord getter: \<open>self._root_chord*np.sqrt(1-span_frac**2)\<close>, on a float or
  an array. Outside \<open>[-1, 1]\<close> numpy's square root is \<open>nan\<close>.
\<close>

definition elliptic_chord :: "real \<Rightarrow> pyval \<Rightarrow> pyval result" where
  "elliptic_chord root_chord span_frac =
     (case span_frac of
        PyFloat s \<Rightarrow>
          if 1 - s\<^sup>2 < 0 then Inl (NonFinite ''sqrt'') else Inr (PyFloat (root_chord * sqrt (1 - s\<^sup>2)))
      | NdArray ss \<Rightarrow>
          if \<exists>s\<in>set ss. 1 - s\<^sup>2 < 0 then Inl (NonFinite ''sqrt'')
          else Inr (NdArray (map (\<lambda>s. root_chord * sqrt (1 - s\<^sup>2)) ss)))"

datatype chord_getter = LinearChord getter | EllipticChord real

definition call_chord :: "chord_getter \<Rightarrow> pyval \<Rightarrow> pyval result" where
  "call_chord g spn =
     (case g of LinearChord h \<Rightarrow> call_getter h spn | EllipticChord c \<Rightarrow> elliptic_chord c spn)"

record seg_getters =
  get_twist :: getter
  get_dihedral :: getter
  get_sweep :: getter
  get_chord :: chord_getter
  get_ac_offset :: getter

text \<open>
  The defaults of \<open>import_value\<close> are the constants \<open>0\<close> and, for the chord, \<open>1.0\<close>; an
  elliptic chord is the tuple whose second entry is the root chord.
\<close>

definition initialize_getters :: "input_dict \<Rightarrow> seg_getters" where
  "initialize_getters inp =
     \<lparr>get_twist = build_getter_linear_f_of_span (get_or (in_twist inp) (Constant 0)) True,
      get_dihedral = build_getter_linear_f_of_span (get_or (in_dihedral inp) (Constant 0)) True,
      get_sweep = build_getter_linear_f_of_span (get_or (in_sweep inp) (Constant 0)) True,
      get_chord =
        (case get_or (in_chord inp) (Linear (Constant 1)) of
           Elliptic root_chord \<Rightarrow> EllipticChord root_chord
         | Linear chord_data \<Rightarrow> LinearChord (build_getter_linear_f_of_span chord_data False)),
      get_ac_offset = build_getter_linear_f_of_span (get_or (in_ac_offset inp) (Constant 0)) False\<rparr>"

subsection \<open>Airfoils and \<open>_initialize_airfoils\<close>\<close>

text \<open>
  The airfoil objects, whose class is not among the sources, are parameters of the
  model. A segment uses an airfoil through its seven coefficient methods only, each
  taken to be a function of the parameter vector of one control point.
\<close>

record airfoil =
  get_CLa :: "real list \<Rightarrow> real"
  get_aL0 :: "real list \<Rightarrow> real"
  get_CLRe :: "real list \<Rightarrow> real"
  get_CLM :: "real list \<Rightarrow> real"
  get_CL :: "real list \<Rightarrow> real"
  get_CD :: "real list \<Rightarrow> real"
  get_Cm :: "real list \<Rightarrow> real"

record seg_airfoils =
  airfoils :: "airfoil list"
  airfoil_spans :: "real list"
  num_airfoils :: nat

text \<open>
  The airfoil dictionary is the list of its items in insertion order; the default
  airfoil is its first key. A name given alone must be a key (\<open>IOError\<close>); a name of a
  distribution that is not a key makes the lookup raise \<open>KeyError\<close>, which the
  \<open>except NameError\<close> does not catch.
\<close>

definition initialize_airfoils ::
    "input_dict \<Rightarrow> (string \<times> airfoil) list \<Rightarrow> seg_airfoils result" where
  "initialize_airfoils inp airfoil_dict =
     (case airfoil_dict of
        [] \<Rightarrow> Inl (IndexError ''list index out of range'')
      | (default_airfoil, _) # _ \<Rightarrow>
          (case get_or (in_airfoil inp) (AirfoilName default_airfoil) of
             AirfoilName a \<Rightarrow>
               (case map_of airfoil_dict a of
                  None \<Rightarrow> Inl (IOError ''must be specified in airfoils'')
                | Some af \<Rightarrow>
                    Inr \<lparr>airfoils = [af, af], airfoil_spans = [0, 1], num_airfoils = 2\<rparr>)
           | AirfoilTable rows \<Rightarrow>
               bind (mapM (\<lambda>(s, nm). case map_of airfoil_dict nm of
                                         None \<Rightarrow> Inl (KeyError nm)
                                       | Some af \<Rightarrow> Inr (af, s)) rows)
                 (\<lambda>ps. Inr \<lparr>airfoils = map fst ps, airfoil_spans = map snd ps,
                             num_airfoils = length ps\<rparr>)))"

subsection \<open>\<open>_setup_control_surface\<close>\<close>

text \<open>
  The attributes that exist only on a segment with a control surface. They are created
  together with the flag \<open>_has_control_surface\<close>, in the one branch of
  \<open>_setup_control_surface\<close> that sets it, and never deleted: the flag is modelled as
  the presence of this record.
\<close>

record control_surface =
  cp_flap_chord_frac :: "real list"
  control_mixing :: "string \<rightharpoonup> real"
  cp_in_control_surface :: "bool list"
  eta_h_esp_f :: "real list"

text \<open>
  The flap state. \<open>_eta_defl\<close> and \<open>_flap_eff\<close> are created by the first
  \<open>apply_control\<close> that gets past its guard; until then the attributes do not exist.
\<close>

record flap_state =
  delta_flap :: real
  Cm_delta_flap :: pyval
  control :: "control_surface option"
  eta_defl :: "real option"
  flap_eff :: "real list option"

definition has_control_surface :: "flap_state \<Rightarrow> bool" where
  "has_control_surface fl = (control fl \<noteq> None)"

text \<open>The hinge efficiency, a fit of Mechanics of Flight Fig. 1.7.4.\<close>

definition hinge_eff :: "real \<Rightarrow> real" where
  "hinge_eff cf = 3.9598 * arctan ((cf + 0.006527) * 89.2574 + 4.898015) - 5.18786"

text \<open>
  The flap chord fraction at each control point: zero outside the control surface, and
  inside it the constant, or \<open>np.interp\<close> of the table, written back under the mask.
\<close>

definition flap_chord_frac :: "span_data \<Rightarrow> real \<Rightarrow> real \<Rightarrow> real list \<Rightarrow> real list result" where
  "flap_chord_frac chord_data root_span tip_span cps =
     (case chord_data of
        Constant c \<Rightarrow> Inr (map (\<lambda>s. if root_span \<le> s \<and> s \<le> tip_span then c else 0) cps)
      | Table t \<Rightarrow>
          (case t of
             [] \<Rightarrow> Inl (ValueError ''array of sample points is empty'')
           | q # qs \<Rightarrow>
               Inr (map (\<lambda>s. if root_span \<le> s \<and> s \<le> tip_span then interp1 q qs s else 0) cps)))"

definition setup_control_surface :: "control_dict option \<Rightarrow> seg_params \<Rightarrow> flap_state result" where
  "setup_control_surface control_dict p =
     (case control_dict of
        None \<Rightarrow>
          Inr \<lparr>delta_flap = 0, Cm_delta_flap = PyFloat 0, control = None,
               eta_defl = None, flap_eff = None\<rparr>
      | Some cd \<Rightarrow>
          (let root_span = get_or (cs_root_span cd) 0;
               tip_span = get_or (cs_tip_span cd) 1;
               in_cs = map (\<lambda>s. root_span \<le> s \<and> s \<le> tip_span) (cp_span_locs p)
           in if length (cp_span_locs p) \<noteq> seg_N p
              then Inl (IndexError ''boolean index did not match indexed array'')
              else
                bind (flap_chord_frac (get_or (cs_chord_fraction cd) (Constant 0.25))
                        root_span tip_span (cp_span_locs p))
                  (\<lambda>frac.
                     let mixing = get_or (cs_control_mixing cd) Map.empty;
                         is_sealed = get_or (cs_is_sealed cd) True
                     in if \<exists>c\<in>set frac. c < 0 \<or> 1 < c then Inl (NonFinite ''arccos'')
                        else
                          (let theta_f = map (\<lambda>c. arccos (2 * c - 1)) frac;
                               eps_flap_ideal = map (\<lambda>t. 1 - (t - sin t) / pi) theta_f;
                               hinge = map (\<lambda>c. if is_sealed then hinge_eff c
                                                 else hinge_eff c * 0.8) frac
                           in Inr \<lparr>delta_flap = 0,
                                   Cm_delta_flap =
                                     NdArray (map (\<lambda>t. (sin (2 * t) - 2 * sin t) / 4) theta_f),
                                   control =
                                     Some \<lparr>cp_flap_chord_frac = frac,
                                           control_mixing = mixing,
                                           cp_in_control_surface = in_cs,
                                           eta_h_esp_f =
                                             map (\<lambda>(e, h). e * h) (zip eps_flap_ideal hinge)\<rparr>,
                                   eta_defl = None, flap_eff = None\<rparr>))))"

subsection \<open>The segment\<close>

text \<open>
  The attributes of a \<open>WingSegment\<close>. Those that \<open>__init__\<close> creates only for a
  segment whose ID is not 0 form the optional \<open>body\<close>, grouped by the method that sets
  them; the arrays cached by \<open>_setup_cp_data\<close> and \<open>_setup_node_data\<close> are absent
  until those have run.
\<close>

record cp_cache =
  u_a_cp :: "vec3 list"
  u_n_cp :: "vec3 list"
  u_s_cp :: "vec3 list"
  control_points :: "vec3 list"
  c_bar_cp :: "real list"
  dS :: "real list"
  twist_cp :: pyval
  dihedral_cp :: pyval
  sweep_cp :: pyval

record seg_body =
  params_part :: seg_params
  getters_part :: seg_getters
  airfoils_part :: seg_airfoils
  flap_part :: flap_state
  cp_part :: "cp_cache option"
  nodes_part :: "vec3 list option"

record wing_fields =
  name :: string
  inp_dict :: input_dict
  unit_sys :: string
  side :: string
  origin :: vec3
  ID :: "int option"
  body :: "seg_body option"

datatype wing_segment =
  WingSegment (fields: wing_fields) (attached_segments: "(string \<times> wing_segment) list")

text \<open>Reading an attribute of the body that was never created.\<close>

definition the_body :: "wing_fields \<Rightarrow> seg_body result" where
  "the_body self = (case body self of
       None \<Rightarrow> Inl (AttributeError ''WingSegment object has no such attribute'')
     | Some bd \<Rightarrow> Inr bd)"

subsection \<open>Locations: \<open>get_root_loc\<close>, \<open>_get_quarter_chord_loc\<close>, \<open>get_tip_loc\<close>\<close>

text \<open>
  \<open>scipy.integrate.quad(f, a, b)[0]\<close> is a parameter of the model: it takes the
  integrand, which may raise, and the two limits, and returns the value of the integral
  or the exception. What quad does with the value its integrand returns is
  \<open>as_float\<close>: an array of one entry is converted to that entry.
\<close>

type_synonym quad = "(real \<Rightarrow> real result) \<Rightarrow> real \<Rightarrow> real \<Rightarrow> real result"

definition as_float :: "pyval \<Rightarrow> real result" where
  "as_float v = (case v of
       PyFloat x \<Rightarrow> Inr x
     | NdArray xs \<Rightarrow> (case xs of [x] \<Rightarrow> Inr x
         | _ \<Rightarrow> Inl (TypeError ''only size-1 arrays can be converted to Python scalars'')))"

definition np_map :: "(real \<Rightarrow> real) \<Rightarrow> pyval \<Rightarrow> pyval" where
  "np_map f v = (case v of PyFloat x \<Rightarrow> PyFloat (f x) | NdArray xs \<Rightarrow> NdArray (map f xs))"

text \<open>The integrand \<open>lambda s : f(getter(s))\<close>, called by quad with a float.\<close>

definition integrand :: "getter \<Rightarrow> (real \<Rightarrow> real) \<Rightarrow> real \<Rightarrow> real result" where
  "integrand g f s = bind (call_getter g (PyFloat s)) (\<lambda>v. as_float (np_map f v))"

text \<open>\<open>x*self.b\<close>: a \<open>TypeError\<close> when the semispan is \<open>None\<close>.\<close>

definition times_b :: "real \<Rightarrow> real option \<Rightarrow> real result" where
  "times_b x b = (case b of
       None \<Rightarrow> Inl (TypeError ''unsupported operand type(s) for *: float and NoneType'')
     | Some v \<Rightarrow> Inr (x * v))"

definition get_root_loc :: "wing_fields \<Rightarrow> vec3 result" where
  "get_root_loc self =
     (if ID self = Some 0 then Inr (origin self)
      else bind (the_body self) (\<lambda>bd. Inr (vadd (origin self) (delta_origin (params_part bd)))))"

text \<open>One pass of the loop of \<open>_get_quarter_chord_loc\<close>: the row \<open>ds[i,:]\<close>.\<close>

definition ds_row :: "quad \<Rightarrow> wing_fields \<Rightarrow> real \<Rightarrow> vec3 result" where
  "ds_row q self sp =
     bind (the_body self) (\<lambda>bd.
       let g = getters_part bd; b = seg_b (params_part bd)
       in bind (bind (q (integrand (get_sweep g) (\<lambda>a. - tan a)) 0 sp) (\<lambda>v. times_b v b)) (\<lambda>x.
          bind (bind (if side self = ''left''
                      then q (integrand (get_dihedral g) (\<lambda>a. - cos a)) 0 sp
                      else q (integrand (get_dihedral g) (\<lambda>a. cos a)) 0 sp) (\<lambda>v. times_b v b)) (\<lambda>y.
          bind (bind (q (integrand (get_dihedral g) (\<lambda>a. - sin a)) 0 sp) (\<lambda>v. times_b v b)) (\<lambda>z.
          Inr (x, y, z)))))"

text \<open>
  The result of \<open>_get_quarter_chord_loc\<close>: for a float the flattened row, a vector; for
  an array the rows.
\<close>

datatype locs = Vec vec3 | Rows "vec3 list"

definition get_quarter_chord_loc :: "quad \<Rightarrow> wing_fields \<Rightarrow> pyval \<Rightarrow> locs result" where
  "get_quarter_chord_loc q self spn =
     (case spn of
        PyFloat x \<Rightarrow>
          bind (ds_row q self x) (\<lambda>d. bind (get_root_loc self) (\<lambda>r. Inr (Vec (vadd r d))))
      | NdArray xs \<Rightarrow>
          bind (mapM (ds_row q self) xs) (\<lambda>ds.
            bind (get_root_loc self) (\<lambda>r. Inr (Rows (map (vadd r) ds)))))"

definition get_tip_loc :: "quad \<Rightarrow> wing_fields \<Rightarrow> locs result" where
  "get_tip_loc q self =
     (if ID self = Some 0 then Inr (Vec (origin self))
      else get_quarter_chord_loc q self (PyFloat 1))"

text \<open>
  What the properties of straight segments ask of quad: a constant integrand is
  integrated exactly, as the Gauss-Kronrod rules of QUADPACK do in exact arithmetic.
\<close>

definition exact_on_constants :: "quad \<Rightarrow> bool" where
  "exact_on_constants q = (\<forall>c a b. q (\<lambda>s. Inr c) a b = Inr (c * (b - a)))"

text \<open>A getter of the angle zero: the constant 0, or a table whose values are all 0.\<close>

definition zero_getter :: "getter \<Rightarrow> bool" where
  "zero_getter g =
     (case g of
        ConstGetter v \<Rightarrow> v = 0
      | TableGetter t angular_data \<Rightarrow> t \<noteq> [] \<and> list_all (\<lambda>(s, v). v = 0) t)"

subsection \<open>Orientation vectors\<close>

text \<open>
  \<open>np.asarray(span)[np.newaxis]\<close> for a float, \<open>np.asarray(span)\<close> otherwise; the
  getters are then called with this array.
\<close>

definition span_array :: "pyval \<Rightarrow> real list" where
  "span_array spn = (case spn of PyFloat x \<Rightarrow> [x] | NdArray xs \<Rightarrow> xs)"

definition getter_values :: "getter \<Rightarrow> real list \<Rightarrow> real list result" where
  "getter_values g xs =
     bind (call_getter g (NdArray xs))
       (\<lambda>v. case v of NdArray ys \<Rightarrow> Inr ys | PyFloat y \<Rightarrow> Inr [y])"

definition get_axial_vec :: "wing_fields \<Rightarrow> pyval \<Rightarrow> vec3 list result" where
  "get_axial_vec self spn =
     bind (the_body self) (\<lambda>bd.
       bind (getter_values (get_twist (getters_part bd)) (span_array spn)) (\<lambda>twist.
         Inr (map (\<lambda>t. (- cos t, 0, sin t)) twist)))"

definition get_normal_vec :: "wing_fields \<Rightarrow> pyval \<Rightarrow> vec3 list result" where
  "get_normal_vec self spn =
     bind (the_body self) (\<lambda>bd.
       bind (getter_values (get_twist (getters_part bd)) (span_array spn)) (\<lambda>twist.
       bind (getter_values (get_dihedral (getters_part bd)) (span_array spn)) (\<lambda>dihedral.
         if side self = ''left''
         then Inr (map (\<lambda>(t, d). (- sin t * cos d, sin d, - cos t * cos d)) (zip twist dihedral))
         else Inr (map (\<lambda>(t, d). (- sin t * cos d, - sin d, - cos t * cos d)) (zip twist dihedral)))))"

text \<open>
  \<open>_get_span_vec\<close> stacks \<open>np.zeros(self._N)\<close> with the two dihedral arrays: the
  lengths must agree for \<open>np.asarray\<close> to build the array.
\<close>

definition get_span_vec :: "wing_fields \<Rightarrow> pyval \<Rightarrow> vec3 list result" where
  "get_span_vec self spn =
     bind (the_body self) (\<lambda>bd.
       bind (getter_values (get_dihedral (getters_part bd)) (span_array spn)) (\<lambda>dihedral.
         if length dihedral \<noteq> seg_N (params_part bd)
         then Inl (ValueError ''setting an array element with a sequence'')
         else if side self = ''left''
         then Inr (map (\<lambda>d. (0, - cos d, - sin d)) dihedral)
         else Inr (map (\<lambda>d. (0, - cos d, sin d)) dihedral)))"

text \<open>
  \<open>_get_section_ac_loc\<close>. With a float the in-place \<open>loc += ...\<close> adds an array of
  shape \<open>(1,3)\<close> to one of shape \<open>(3,)\<close>, which numpy refuses; the class calls it with
  arrays only.
\<close>

definition scale :: "real \<Rightarrow> vec3 \<Rightarrow> vec3" where
  "scale k v = (case v of (a, b, c) \<Rightarrow> (k * a, k * b, k * c))"

definition chord_values :: "chord_getter \<Rightarrow> real list \<Rightarrow> real list result" where
  "chord_values g xs =
     bind (call_chord g (NdArray xs))
       (\<lambda>v. case v of NdArray ys \<Rightarrow> Inr ys | PyFloat y \<Rightarrow> Inr [y])"

definition get_section_ac_loc :: "quad \<Rightarrow> wing_fields \<Rightarrow> pyval \<Rightarrow> vec3 list result" where
  "get_section_ac_loc q self spn =
     bind (get_quarter_chord_loc q self spn) (\<lambda>loc.
     bind (the_body self) (\<lambda>bd.
     bind (getter_values (get_ac_offset (getters_part bd)) (span_array spn)) (\<lambda>ac.
     bind (chord_values (get_chord (getters_part bd)) (span_array spn)) (\<lambda>chord.
     bind (get_axial_vec self spn) (\<lambda>axial.
       case loc of
         Vec v \<Rightarrow> Inl (ValueError ''non-broadcastable output operand'')
       | Rows rs \<Rightarrow>
           Inr (map (\<lambda>(r, a, c, u). vadd r (scale (a * c) u)) (zip rs (zip ac (zip chord axial)))))))))"

definition get_cp_avg_chord_lengths :: "wing_fields \<Rightarrow> real list result" where
  "get_cp_avg_chord_lengths self =
     bind (the_body self) (\<lambda>bd.
       bind (chord_values (get_chord (getters_part bd)) (node_span_locs (params_part bd)))
         (\<lambda>node_chords. Inr (map (\<lambda>(c1, c0). (c1 + c0) / 2) (zip (tl node_chords) (butlast node_chords)))))"

subsection \<open>\<open>_setup_cp_data\<close>, \<open>_setup_node_data\<close> and \<open>__init__\<close>\<close>

definition setup_cp_data :: "quad \<Rightarrow> wing_fields \<Rightarrow> wing_fields result" where
  "setup_cp_data q self =
     bind (the_body self) (\<lambda>bd.
       let cps = NdArray (cp_span_locs (params_part bd));
           node_locs = node_span_locs (params_part bd);
           g = getters_part bd
       in bind (get_axial_vec self cps) (\<lambda>ua.
          bind (get_normal_vec self cps) (\<lambda>un.
          bind (get_span_vec self cps) (\<lambda>us.
          bind (get_section_ac_loc q self cps) (\<lambda>cp.
          bind (get_cp_avg_chord_lengths self) (\<lambda>cbar.
          bind (case seg_b (params_part bd) of
                  None \<Rightarrow> Inl (TypeError ''unsupported operand type(s) for *: float and NoneType'')
                | Some b \<Rightarrow>
                    Inr (map (\<lambda>((n1, n0), c). \<bar>n1 - n0\<bar> * b * c)
                           (zip (zip (tl node_locs) (butlast node_locs)) cbar))) (\<lambda>ds.
          bind (call_getter (get_twist g) cps) (\<lambda>tw.
          bind (call_getter (get_dihedral g) cps) (\<lambda>di.
          bind (call_getter (get_sweep g) cps) (\<lambda>sw.
            Inr (self\<lparr>body := Some (bd\<lparr>cp_part :=
                   Some \<lparr>u_a_cp = ua, u_n_cp = un, u_s_cp = us, control_points = cp,
                         c_bar_cp = cbar, dS = ds, twist_cp = tw, dihedral_cp = di,
                         sweep_cp = sw\<rparr>\<rparr>)\<rparr>)))))))))))"

definition setup_node_data :: "quad \<Rightarrow> wing_fields \<Rightarrow> wing_fields result" where
  "setup_node_data q self =
     bind (the_body self) (\<lambda>bd.
       bind (get_section_ac_loc q self (NdArray (node_span_locs (params_part bd)))) (\<lambda>ns.
         Inr (self\<lparr>body := Some (bd\<lparr>nodes_part := Some ns\<rparr>)\<rparr>)))"

text \<open>
  The constructor. The origin defaults to \<open>[0.0, 0.0, 0.0]\<close> in Python; here it is
  always given.
\<close>

definition WingSegment_init ::
    "quad \<Rightarrow> string \<Rightarrow> input_dict \<Rightarrow> string \<Rightarrow> string \<Rightarrow> (string \<times> airfoil) list \<Rightarrow> vec3
       \<Rightarrow> wing_segment result" where
  "WingSegment_init q nm inp sd us airfoil_dict orig =
     (let self0 = \<lparr>name = nm, inp_dict = inp, unit_sys = us, side = sd, origin = orig,
                   ID = in_ID inp, body = None\<rparr>
      in if ID self0 = Some 0 \<and> nm \<noteq> ''origin''
         then Inl (IOError ''Wing segment ID may not be 0.'')
         else if ID self0 \<noteq> Some 0 then
           bind (initialize_params inp sd) (\<lambda>p.
           bind (initialize_airfoils inp airfoil_dict) (\<lambda>a.
           bind (setup_control_surface (in_control_surface inp) p) (\<lambda>fl.
           bind (setup_cp_data q
                   (self0\<lparr>body := Some \<lparr>params_part = p,
                                         getters_part = initialize_getters inp,
                                         airfoils_part = a, flap_part = fl,
                                         cp_part = None, nodes_part = None\<rparr>\<rparr>)) (\<lambda>self1.
           bind (setup_node_data q self1) (\<lambda>self2.
             Inr (WingSegment self2 []))))))
         else Inr (WingSegment self0 []))"

subsection \<open>Coefficient queries\<close>

text \<open>
  \<open>np.searchsorted(a, v)\<close> (side \<open>left\<close>) for an increasing \<open>a\<close>: the number of entries
  below \<open>v\<close>.
\<close>

definition searchsorted :: "real list \<Rightarrow> real \<Rightarrow> nat" where
  "searchsorted a v = length (takeWhile (\<lambda>x. x < v) a)"

text \<open>
  The arithmetic of IEEE doubles: an operation returns the rounding of its exact result.
  \<open>fl\<close>, the rounding, is a parameter. What is asked of it where a property needs it is
  the standard model of rounding to nearest, with the unit roundoff \<open>u\<close> (\<open>2^-53\<close> for
  doubles, away from overflow and underflow): the relative error of a rounding is at most
  \<open>u\<close>, rounding is monotonic, and 1 is a double. Exact arithmetic is the identity with
  \<open>u = 0\<close>; the rounding of doubles below, \<open>round_to_double\<close>, is another instance.
\<close>

definition rounding :: "real \<Rightarrow> (real \<Rightarrow> real) \<Rightarrow> bool" where
  "rounding u fl =
     (0 \<le> u \<and> (\<forall>x. \<bar>fl x - x\<bar> \<le> u * \<bar>x\<bar>) \<and> (\<forall>x y. x \<le> y \<longrightarrow> fl x \<le> fl y) \<and> fl 1 = 1)"

text \<open>
  The rounding of IEEE 754 doubles, to nearest with ties to even: a real other than 0 is
  scaled by the power \<open>2^e\<close> of two that brings its magnitude into \<open>[2^52, 2^53)\<close>, rounded
  there to an integer, and scaled back. The exponent is unbounded: no overflow to \<open>inf\<close>
  and no subnormal numbers, so this is the arithmetic of doubles for magnitudes between
  \<open>2^-1022\<close> and \<open>2^1024\<close>.
\<close>

definition round_half_even :: "real \<Rightarrow> int" where
  "round_half_even x =
     (let f = \<lfloor>x\<rfloor>
      in if x - of_int f < 1 / 2 then f
         else if 1 / 2 < x - of_int f then f + 1
         else if even f then f else f + 1)"

definition round_to_double :: "real \<Rightarrow> real" where
  "round_to_double x =
     (if x = 0 then 0
      else let e = \<lfloor>log 2 \<bar>x\<bar>\<rfloor> - 52
           in sgn x * of_int (round_half_even (\<bar>x\<bar> / 2 powr of_int e)) * 2 powr of_int e)"

text \<open>
  \<open>_airfoil_interpolator\<close>. The index \<open>j\<close> is \<open>searchsorted - 1\<close>, set to 0 where it is
  negative. The fancy indexing raises \<open>IndexError\<close> when an index is out of range; a
  division by zero is only a warning in numpy and leaves \<open>nan\<close> or \<open>inf\<close>. The last two
  lines are seven operations on doubles, each rounded:
  \<open>d = (interp_spans-sample_spans[j])/(sample_spans[j+1]-sample_spans[j])\<close> and
  \<open>(1-d)*coefs[i,j]+d*coefs[i,j+1]\<close>.
\<close>

definition airfoil_interpolator ::
    "(real \<Rightarrow> real) \<Rightarrow> real list \<Rightarrow> real list \<Rightarrow> real list list \<Rightarrow> real list result" where
  "airfoil_interpolator fl interp_spans sample_spans coefs =
     (let js = map (\<lambda>x. searchsorted sample_spans x - 1) interp_spans;
          rows = zip [0..<length interp_spans] (zip interp_spans js)
      in if \<exists>j\<in>set js. \<not> j + 1 < length sample_spans
         then Inl (IndexError ''index is out of bounds for sample_spans'')
         else if \<exists>(i, x, j)\<in>set rows. \<not> (i < length coefs \<and> j + 1 < length (coefs ! i))
         then Inl (IndexError ''index is out of bounds for coefs'')
         else if \<exists>j\<in>set js. fl (sample_spans ! (j + 1) - sample_spans ! j) = 0
         then Inl (NonFinite ''division by zero'')
         else Inr (map (\<lambda>(i, x, j).
                     let d = fl (fl (x - sample_spans ! j)
                                   / fl (sample_spans ! (j + 1) - sample_spans ! j))
                     in fl (fl (fl (1 - d) * coefs ! i ! j) + fl (d * coefs ! i ! (j + 1))))
                   rows))"

text \<open>
  The parameter matrix is a two-dimensional array, the list of its rows.
  \<open>new_params[:,:3] = params\<close> broadcasts: the rows have three entries, or one entry
  that is repeated.
\<close>

definition first_three :: "real list list \<Rightarrow> real list list result" where
  "first_three prm =
     (if list_all (\<lambda>r. length r = 3) prm then Inr prm
      else if list_all (\<lambda>r. length r = 1) prm then Inr (map (\<lambda>r. r @ r @ r) prm)
      else Inl (ValueError ''could not broadcast input array''))"

text \<open>Assigning an array to a column of \<open>n\<close> entries.\<close>

definition column :: "nat \<Rightarrow> real list \<Rightarrow> real list result" where
  "column n xs =
     (if length xs = n then Inr xs
      else if length xs = 1 then Inr (replicate n (hd xs))
      else Inl (ValueError ''could not broadcast input array''))"

text \<open>
  The exception a query raises for a parameter matrix whose row count is not the number
  of control points.
\<close>

definition row_count_error :: error where
  "row_count_error = ValueError ''params shape does not match control points''"

text \<open>
  The matrix \<open>new_params\<close> of a query, with the check of the row count in front. The
  fourth column is \<open>_flap_eff\<close>, or \<open>_Cm_delta_flap\<close> in \<open>get_cp_Cm\<close>; the fifth is
  \<open>_delta_flap\<close>; both stay zero without a control surface.
\<close>

definition new_params :: "bool \<Rightarrow> wing_fields \<Rightarrow> real list list \<Rightarrow> real list list result" where
  "new_params for_Cm self prm =
     bind (the_body self) (\<lambda>bd.
       let n = seg_N (params_part bd); fl = flap_part bd
       in if length prm \<noteq> n
          then Inl row_count_error
          else
            bind (first_three prm) (\<lambda>p3.
              if has_control_surface fl then
                bind (if for_Cm then
                        (case Cm_delta_flap fl of
                           PyFloat c \<Rightarrow> Inr (replicate n c)
                         | NdArray cs \<Rightarrow> column n cs)
                      else
                        (case flap_eff fl of
                           None \<Rightarrow> Inl (AttributeError ''WingSegment object has no attribute _flap_eff'')
                         | Some fe \<Rightarrow> column n fe)) (\<lambda>c3.
                  Inr (map (\<lambda>(r, e). r @ [e, delta_flap fl]) (zip p3 c3)))
              else Inr (map (\<lambda>r. r @ [0, 0]) p3)))"

text \<open>
  The seven queries differ in the airfoil method they call and, for \<open>get_cp_Cm\<close>, in
  the fourth column; \<open>cp_query\<close> is their common text. The rounding \<open>fl\<close> of the
  arithmetic of \<open>_airfoil_interpolator\<close> is their first argument.
\<close>

definition cp_query ::
    "(real \<Rightarrow> real) \<Rightarrow> (airfoil \<Rightarrow> real list \<Rightarrow> real) \<Rightarrow> bool \<Rightarrow> wing_fields \<Rightarrow> real list list
       \<Rightarrow> real list result" where
  "cp_query fl method for_Cm self prm =
     bind (new_params for_Cm self prm) (\<lambda>np.
     bind (the_body self) (\<lambda>bd.
       let a = airfoils_part bd
       in if np \<noteq> [] \<and> length (airfoils a) < num_airfoils a
          then Inl (IndexError ''list index out of range'')
          else airfoil_interpolator fl (cp_span_locs (params_part bd)) (airfoil_spans a)
                 (map (\<lambda>row. map (\<lambda>af. method af row) (take (num_airfoils a) (airfoils a))) np)))"

definition get_cp_CLa :: "(real \<Rightarrow> real) \<Rightarrow> wing_fields \<Rightarrow> real list list \<Rightarrow> real list result" where
  "get_cp_CLa fl = cp_query fl get_CLa False"

definition get_cp_aL0 :: "(real \<Rightarrow> real) \<Rightarrow> wing_fields \<Rightarrow> real list list \<Rightarrow> real list result" where
  "get_cp_aL0 fl = cp_query fl get_aL0 False"

definition get_cp_CLRe :: "(real \<Rightarrow> real) \<Rightarrow> wing_fields \<Rightarrow> real list list \<Rightarrow> real list result" where
  "get_cp_CLRe fl = cp_query fl get_CLRe False"

definition get_cp_CLM :: "(real \<Rightarrow> real) \<Rightarrow> wing_fields \<Rightarrow> real list list \<Rightarrow> real list result" where
  "get_cp_CLM fl = cp_query fl get_CLM False"

definition get_cp_CL :: "(real \<Rightarrow> real) \<Rightarrow> wing_fields \<Rightarrow> real list list \<Rightarrow> real list result" where
  "get_cp_CL fl = cp_query fl get_CL False"

definition get_cp_CD :: "(real \<Rightarrow> real) \<Rightarrow> wing_fields \<Rightarrow> real list list \<Rightarrow> real list result" where
  "get_cp_CD fl = cp_query fl get_CD False"

definition get_cp_Cm :: "(real \<Rightarrow> real) \<Rightarrow> wing_fields \<Rightarrow> real list list \<Rightarrow> real list result" where
  "get_cp_Cm fl = cp_query fl get_Cm True"

text \<open>
  A segment whose airfoil assignment is the single airfoil \<open>af\<close>, as
  \<open>_initialize_airfoils\<close> stores it: the two-point table over \<open>[0, 1]\<close>, with the control
  points \<open>_initialize_params\<close> leaves.
\<close>

definition constant_airfoil :: "wing_fields \<Rightarrow> airfoil \<Rightarrow> bool" where
  "constant_airfoil self af =
     (case body self of
        None \<Rightarrow> False
      | Some bd \<Rightarrow>
          airfoils_part bd = \<lparr>airfoils = [af, af], airfoil_spans = [0, 1], num_airfoils = 2\<rparr>
          \<and> in_unit (cp_span_locs (params_part bd))
          \<and> length (cp_span_locs (params_part bd)) = seg_N (params_part bd))"

text \<open>
  A parameter matrix a query accepts: as many rows as control points, each of three
  entries, and, on a segment with a control surface, the array for the fourth column in
  place with one entry per control point (\<open>_flap_eff\<close>, which \<open>apply_control\<close> creates;
  for \<open>get_cp_Cm\<close>, \<open>_Cm_delta_flap\<close>).
\<close>

definition accepts :: "bool \<Rightarrow> wing_fields \<Rightarrow> real list list \<Rightarrow> bool" where
  "accepts for_Cm self prm =
     (case body self of
        None \<Rightarrow> False
      | Some bd \<Rightarrow>
          length prm = seg_N (params_part bd) \<and> list_all (\<lambda>r. length r = 3) prm
          \<and> (case control (flap_part bd) of
                None \<Rightarrow> True
              | Some cs \<Rightarrow>
                  if for_Cm then
                    (case Cm_delta_flap (flap_part bd) of
                       PyFloat c \<Rightarrow> True
                     | NdArray c \<Rightarrow> length c = seg_N (params_part bd))
                  else
                    (case flap_eff (flap_part bd) of
                       None \<Rightarrow> False
                     | Some fe \<Rightarrow> length fe = seg_N (params_part bd))))"

text \<open>
  A query returns, and what it returns is, entry by entry, the given value \<open>c\<close> up to the
  rounding of the blend \<open>(1-d)*c + d*c\<close>: a relative error of at most \<open>(1 + u)^3 - 1\<close>.
  For \<open>u = 0\<close> it returns the given values.
\<close>

definition returns_near :: "real \<Rightarrow> real list result \<Rightarrow> real list \<Rightarrow> bool" where
  "returns_near u r cs =
     (case r of
        Inl e \<Rightarrow> False
      | Inr ys \<Rightarrow> list_all2 (\<lambda>y c. \<bar>y - c\<bar> \<le> ((1 + u) ^ 3 - 1) * \<bar>c\<bar>) ys cs)"

subsection \<open>\<open>apply_control\<close> and \<open>get_cp_flap\<close>\<close>

text \<open>
  The control state is the list of the dictionary's items in iteration order, each key
  with the deflection \<open>import_value\<close> returns for it (in degrees); the control symmetry
  is a dictionary of booleans. The loop adds to \<open>self._delta_flap\<close> as it goes, so when
  \<open>control_symmetry[key]\<close> raises \<open>KeyError\<close> the attribute holds the sum so far: the
  loop returns that sum together with the exception, if any. A right segment never
  reads \<open>control_symmetry\<close>.
\<close>

fun control_loop ::
    "string \<Rightarrow> (string \<rightharpoonup> real) \<Rightarrow> (string \<rightharpoonup> bool) \<Rightarrow> (string \<times> real) list \<Rightarrow> real
       \<Rightarrow> real \<times> error option" where
  "control_loop sd mixing control_symmetry [] acc = (acc, None)"
| "control_loop sd mixing control_symmetry ((key, deflection) # rest) acc =
     (if sd = ''right''
      then control_loop sd mixing control_symmetry rest (acc + deflection * get_or (mixing key) 0)
      else (case control_symmetry key of
              None \<Rightarrow> (acc, Some (KeyError key))
            | Some symmetric \<Rightarrow>
                if symmetric
                then control_loop sd mixing control_symmetry rest
                       (acc + deflection * get_or (mixing key) 0)
                else control_loop sd mixing control_symmetry rest
                       (acc - deflection * get_or (mixing key) 0)))"


text \<open>The deflection efficiency, a fit of Mechanics of Flight Fig. 1.7.5.\<close>

definition deflection_efficiency :: "real \<Rightarrow> real" where
  "deflection_efficiency d =
     (if d < 11 then 1 else - 0.00871794871794872 * d + 1.09589743589744)"

text \<open>
  \<open>apply_control\<close> returns nothing; the model returns the segment as the call leaves it,
  and the exception if one was raised.
\<close>

definition apply_control ::
    "wing_fields \<Rightarrow> (string \<times> real) list \<Rightarrow> (string \<rightharpoonup> bool) \<Rightarrow> wing_fields \<times> error option" where
  "apply_control self control_state control_symmetry =
     (case body self of
        None \<Rightarrow> (self, Some (AttributeError ''WingSegment object has no attribute _has_control_surface''))
      | Some bd \<Rightarrow>
          (case control (flap_part bd) of
             None \<Rightarrow> (self, None)
           | Some cs \<Rightarrow>
               (case control_loop (side self) (control_mixing cs) control_symmetry control_state 0 of
                  (d, Some e) \<Rightarrow>
                    (self\<lparr>body := Some (bd\<lparr>flap_part := (flap_part bd)\<lparr>delta_flap := d\<rparr>\<rparr>)\<rparr>, Some e)
                | (d, None) \<Rightarrow>
                    (let eta = deflection_efficiency d
                     in (self\<lparr>body := Some (bd\<lparr>flap_part := (flap_part bd)
                            \<lparr>delta_flap := radians d,
                             eta_defl := Some eta,
                             flap_eff := Some (map (\<lambda>e. e * eta) (eta_h_esp_f cs))\<rparr>\<rparr>)\<rparr>,
                         None)))))"

definition get_cp_flap :: "wing_fields \<Rightarrow> pyval result" where
  "get_cp_flap self =
     bind (the_body self) (\<lambda>bd.
       let fl = flap_part bd
       in if has_control_surface fl then
            (case flap_eff fl of
               None \<Rightarrow> Inl (AttributeError ''WingSegment object has no attribute _flap_eff'')
             | Some fe \<Rightarrow> Inr (NdArray (map (\<lambda>e. e * delta_flap fl) fe)))
          else Inr (PyFloat 0))"

subsection \<open>\<open>attach_wing_segment\<close>\<close>

text \<open>\<open>sub in s\<close> on strings.\<close>

fun str_contains :: "string \<Rightarrow> string \<Rightarrow> bool" where
  "str_contains [] sub = (sub = [])"
| "str_contains (c # cs) sub = (prefix sub (c # cs) \<or> str_contains cs sub)"

text \<open>
  \<open>d[key] = value\<close> on a dictionary kept as the list of its items: an existing key keeps
  its place, a new one goes to the end.
\<close>

fun dict_set :: "(string \<times> 'a) list \<Rightarrow> string \<Rightarrow> 'a \<Rightarrow> (string \<times> 'a) list" where
  "dict_set [] k v = [(k, v)]"
| "dict_set ((k', v') # rest) k v =
     (if k' = k then (k, v) # rest else (k', v') # dict_set rest k v)"

text \<open>
  What \<open>_attach_wing_segment\<close> does at a segment: it raises, it returns \<open>False\<close>, or it
  returns the new segment, having changed the tree below the segment it was called on.
  The same type, with the list of children in place of the segment, serves the loop over
  \<open>self._attached_segments\<close>.
\<close>

datatype 'a search = Raised error | NotAttached | Attached wing_segment 'a

definition parent_ID :: "input_dict \<Rightarrow> int" where
  "parent_ID inp = get_or (c_ID (get_or (in_connect_to inp) empty_connect)) 0"

definition attachment_point :: "quad \<Rightarrow> input_dict \<Rightarrow> wing_fields \<Rightarrow> vec3 result" where
  "attachment_point q inp self =
     (if get_or (c_location (get_or (in_connect_to inp) empty_connect)) ''tip'' = ''root''
      then get_root_loc self
      else bind (get_tip_loc q self)
             (\<lambda>l. case l of Vec v \<Rightarrow> Inr v
                            | Rows rs \<Rightarrow> Inl (TypeError ''the tip location is a single point'')))"

fun attach_seg ::
    "quad \<Rightarrow> string \<Rightarrow> input_dict \<Rightarrow> string \<Rightarrow> string \<Rightarrow> (string \<times> airfoil) list
       \<Rightarrow> wing_segment \<Rightarrow> wing_segment search"
and attach_children ::
    "quad \<Rightarrow> string \<Rightarrow> input_dict \<Rightarrow> string \<Rightarrow> string \<Rightarrow> (string \<times> airfoil) list
       \<Rightarrow> (string \<times> wing_segment) list \<Rightarrow> ((string \<times> wing_segment) list) search" where
  "attach_seg q nm inp sd us ad (WingSegment self children) =
     (if ID self = Some (parent_ID inp) then
        (case bind (attachment_point q inp self) (WingSegment_init q nm inp sd us ad) of
           Inl e \<Rightarrow> Raised e
         | Inr new \<Rightarrow> Attached new (WingSegment self (dict_set children nm new)))
      else
        (case attach_children q nm inp sd us ad children of
           Raised e \<Rightarrow> Raised e
         | Attached new children' \<Rightarrow> Attached new (WingSegment self children')
         | NotAttached \<Rightarrow>
             if ID self = Some 0
             then Raised (RuntimeError ''Could not attach wing segment. Check ID of parent is valid.'')
             else NotAttached))"
| "attach_children q nm inp sd us ad [] = NotAttached"
| "attach_children q nm inp sd us ad ((key, child) # rest) =
     (if \<not> str_contains key sd then
        (case attach_children q nm inp sd us ad rest of
           Raised e \<Rightarrow> Raised e
         | NotAttached \<Rightarrow> NotAttached
         | Attached new rest' \<Rightarrow> Attached new ((key, child) # rest'))
      else
        (case attach_seg q nm inp sd us ad child of
           Raised e \<Rightarrow> Raised e
         | Attached new child' \<Rightarrow> Attached new ((key, child') # rest)
         | NotAttached \<Rightarrow>
             (case attach_children q nm inp sd us ad rest of
                Raised e \<Rightarrow> Raised e
              | NotAttached \<Rightarrow> NotAttached
              | Attached new rest' \<Rightarrow> Attached new ((key, child) # rest'))))"

definition attach_wing_segment ::
    "quad \<Rightarrow> wing_segment \<Rightarrow> string \<Rightarrow> input_dict \<Rightarrow> string \<Rightarrow> string \<Rightarrow> (string \<times> airfoil) list
       \<Rightarrow> wing_segment search" where
  "attach_wing_segment q self nm inp sd us ad =
     (if ID (fields self) \<noteq> Some 0
      then Raised (RuntimeError ''Please add segments only at the origin segment.'')
      else attach_seg q nm inp sd us ad self)"

text \<open>
  The segments the search of \<open>_attach_wing_segment\<close> can visit below a segment, in the
  order of the visits: the segment itself, then, for each child whose key contains the
  side string, what can be visited below that child. \<open>all_segments\<close> lists every segment
  of the tree.
\<close>

fun search_order :: "string \<Rightarrow> wing_segment \<Rightarrow> wing_segment list"
and search_order_children :: "string \<Rightarrow> (string \<times> wing_segment) list \<Rightarrow> wing_segment list" where
  "search_order sd (WingSegment self children) =
     WingSegment self children # search_order_children sd children"
| "search_order_children sd [] = []"
| "search_order_children sd ((key, child) # rest) =
     (if str_contains key sd then search_order sd child else []) @ search_order_children sd rest"

fun all_segments :: "wing_segment \<Rightarrow> wing_segment list"
and all_children :: "(string \<times> wing_segment) list \<Rightarrow> wing_segment list" where
  "all_segments (WingSegment self children) = WingSegment self children # all_children children"
| "all_children [] = []"
| "all_children ((key, child) # rest) = all_segments child @ all_children rest"

text \<open>The first segment with the given ID among those the search can visit.\<close>

definition first_match :: "string \<Rightarrow> int \<Rightarrow> wing_segment \<Rightarrow> wing_segment option" where
  "first_match sd pid t = find (\<lambda>s. ID (fields s) = Some pid) (search_order sd t)"

definition first_match_children ::
    "string \<Rightarrow> int \<Rightarrow> (string \<times> wing_segment) list \<Rightarrow> wing_segment option" where
  "first_match_children sd pid ch = find (\<lambda>s. ID (fields s) = Some pid) (search_order_children sd ch)"

text \<open>
  The new segment as it is built at a parent, and the parent with the new segment
  registered under its name.
\<close>

definition construct_at ::
    "quad \<Rightarrow> string \<Rightarrow> input_dict \<Rightarrow> string \<Rightarrow> string \<Rightarrow> (string \<times> airfoil) list \<Rightarrow> wing_segment
       \<Rightarrow> wing_segment result" where
  "construct_at q nm inp sd us ad parent =
     bind (attachment_point q inp (fields parent)) (WingSegment_init q nm inp sd us ad)"

definition registered :: "wing_segment \<Rightarrow> string \<Rightarrow> wing_segment \<Rightarrow> wing_segment" where
  "registered parent nm new =
     WingSegment (fields parent) (dict_set (attached_segments parent) nm new)"

definition could_not_attach :: error where
  "could_not_attach = RuntimeError ''Could not attach wing segment. Check ID of parent is valid.''"

subsection \<open>A concrete input\<close>

text \<open>
  A straight segment with ID 1 and semispan 4 on a uniform grid of two cells, everything
  else left to the defaults.
\<close>

definition example_input :: input_dict where
  "example_input =
     \<lparr>in_ID = Some 1, in_is_main = Some True, in_semispan = Some 4, in_grid = Some 2,
      in_use_clustering = Some False, in_connect_to = None, in_twist = None,
      in_dihedral = None, in_sweep = None, in_chord = None, in_ac_offset = None,
      in_airfoil = None, in_control_surface = None\<rparr>"

text \<open>
  The same segment with a sealed control surface over the whole span, flap chord fraction
  0.25, moved by the control \<open>elevator\<close> with gain 1.
\<close>

definition flap_input :: input_dict where
  "flap_input =
     example_input\<lparr>in_control_surface :=
       Some \<lparr>cs_root_span = None, cs_tip_span = None, cs_chord_fraction = None,
             cs_is_sealed = None, cs_control_mixing = Some [''elevator'' \<mapsto> 1]\<rparr>\<rparr>"

text \<open>The same segment with a dihedral of 90 degrees.\<close>

definition dihedral_input :: input_dict where
  "dihedral_input = example_input\<lparr>in_dihedral := Some (Constant 90)\<rparr>"

text \<open>The input of the origin segment.\<close>

definition origin_input :: input_dict where
  "origin_input = example_input\<lparr>in_ID := Some 0, in_is_main := Some False, in_semispan := None,
                                  in_grid := None, in_use_clustering := None\<rparr>"

text \<open>
  An airfoil whose lift is not linear in its parameters, and the dictionary that holds
  it.
\<close>

definition example_airfoil :: airfoil where
  "example_airfoil =
     \<lparr>get_CLa = (\<lambda>p. 2 * pi),
      get_aL0 = (\<lambda>p. 0),
      get_CLRe = (\<lambda>p. 0),
      get_CLM = (\<lambda>p. 0),
      get_CL = (\<lambda>p. 2 * pi * (p ! 0 + p ! 3 * p ! 4) - (p ! 0) ^ 3),
      get_CD = (\<lambda>p. 0.01 + (p ! 0)\<^sup>2),
      get_Cm = (\<lambda>p. p ! 3 * p ! 4)\<rparr>"

definition example_airfoils :: "(string \<times> airfoil) list" where
  "example_airfoils = [(''NACA_0010'', example_airfoil)]"

text \<open>
  A quadrature rule to run the examples with: the midpoint rule. It integrates a
  constant exactly.
\<close>

definition midpoint_quad :: quad where
  "midpoint_quad f a b = bind (f ((a + b) / 2)) (\<lambda>v. Inr (v * (b - a)))"

text \<open>
  The right-hand segment \<open>__init__\<close> builds from \<open>example_input\<close> at the origin, with
  the midpoint rule for quad (see \<open>example_wing_built\<close>).
\<close>

definition example_body :: seg_body where
  "example_body =
     \<lparr>params_part =
        \<lparr>is_main = Some True, seg_b = Some 4, seg_N = 2, use_clustering = False,
         delta_origin = (0, 0, 0), node_span_locs = [0, 1 / 2, 1],
         cp_span_locs = [1 / 4, 3 / 4]\<rparr>,
      getters_part =
        \<lparr>get_twist = ConstGetter 0, get_dihedral = ConstGetter 0, get_sweep = ConstGetter 0,
         get_chord = LinearChord (ConstGetter 1), get_ac_offset = ConstGetter 0\<rparr>,
      airfoils_part =
        \<lparr>airfoils = [example_airfoil, example_airfoil], airfoil_spans = [0, 1],
         num_airfoils = 2\<rparr>,
      flap_part =
        \<lparr>delta_flap = 0, Cm_delta_flap = PyFloat 0, control = None, eta_defl = None,
         flap_eff = None\<rparr>,
      cp_part =
        Some \<lparr>u_a_cp = [(- 1, 0, 0), (- 1, 0, 0)], u_n_cp = [(0, 0, - 1), (0, 0, - 1)],
              u_s_cp = [(0, - 1, 0), (0, - 1, 0)], control_points = [(0, 1, 0), (0, 3, 0)],
              c_bar_cp = [1, 1], dS = [2, 2], twist_cp = NdArray [0, 0],
              dihedral_cp = NdArray [0, 0], sweep_cp = NdArray [0, 0]\<rparr>,
      nodes_part = Some [(0, 0, 0), (0, 2, 0), (0, 4, 0)]\<rparr>"

definition example_wing :: wing_fields where
  "example_wing =
     \<lparr>name = ''wing_right'', inp_dict = example_input, unit_sys = ''SI'', side = ''right'',
      origin = (0, 0, 0), ID = Some 1, body = Some example_body\<rparr>"

text \<open>The same from \<open>flap_input\<close>: the segment with the control surface.\<close>

definition example_eta :: real where
  "example_eta = (1 - (2 * pi / 3 - sin (2 * pi / 3)) / pi) * hinge_eff (1 / 4)"

definition example_control :: control_surface where
  "example_control =
     \<lparr>cp_flap_chord_frac = [1 / 4, 1 / 4], control_mixing = [''elevator'' \<mapsto> 1],
      cp_in_control_surface = [True, True], eta_h_esp_f = [example_eta, example_eta]\<rparr>"

definition flap_body :: seg_body where
  "flap_body =
     example_body\<lparr>flap_part :=
       \<lparr>delta_flap = 0,
        Cm_delta_flap = NdArray [(sin (4 * pi / 3) - 2 * sin (2 * pi / 3)) / 4,
                                 (sin (4 * pi / 3) - 2 * sin (2 * pi / 3)) / 4],
        control = Some example_control, eta_defl = None, flap_eff = None\<rparr>\<rparr>"

definition flap_wing :: wing_fields where
  "flap_wing = example_wing\<lparr>inp_dict := flap_input, body := Some flap_body\<rparr>"

text \<open>
  The same from \<open>dihedral_input\<close>: the right-hand segment that points straight up (the
  body-fixed z axis points down).
\<close>

definition dihedral_body :: seg_body where
  "dihedral_body =
     example_body\<lparr>
       getters_part := (getters_part example_body)\<lparr>get_dihedral := ConstGetter (pi / 2)\<rparr>,
       cp_part :=
         Some \<lparr>u_a_cp = [(- 1, 0, 0), (- 1, 0, 0)], u_n_cp = [(0, - 1, 0), (0, - 1, 0)],
               u_s_cp = [(0, 0, 1), (0, 0, 1)], control_points = [(0, 0, - 1), (0, 0, - 3)],
               c_bar_cp = [1, 1], dS = [2, 2], twist_cp = NdArray [0, 0],
               dihedral_cp = NdArray [pi / 2, pi / 2], sweep_cp = NdArray [0, 0]\<rparr>,
       nodes_part := Some [(0, 0, 0), (0, 0, - 2), (0, 0, - 4)]\<rparr>"

definition dihedral_wing :: wing_fields where
  "dihedral_wing = example_wing\<lparr>inp_dict := dihedral_input, body := Some dihedral_body\<rparr>"

text \<open>The origin segment, as \<open>__init__\<close> builds it from \<open>origin_input\<close>.\<close>

definition origin_fields :: wing_fields where
  "origin_fields =
     \<lparr>name = ''origin'', inp_dict = origin_input, unit_sys = ''SI'', side = ''both'',
      origin = (0, 0, 0), ID = Some 0, body = None\<rparr>"

text \<open>
  The tree after the right-hand segment has been attached to the origin segment, and the
  input of a tail segment that connects to the segment with ID 1.
\<close>

definition example_tree :: wing_segment where
  "example_tree = WingSegment origin_fields [(''wing_right'', WingSegment example_wing [])]"

definition tail_input :: input_dict where
  "tail_input =
     example_input\<lparr>in_ID := Some 2, in_connect_to := Some (empty_connect\<lparr>c_ID := Some 1\<rparr>)\<rparr>"

text \<open>
  The tail as \<open>__init__\<close> builds it at the tip of the right-hand segment.
\<close>

definition tail_wing :: wing_fields where
  "tail_wing =
     \<lparr>name = ''tail_right'', inp_dict = tail_input, unit_sys = ''SI'', side = ''right'',
      origin = (0, 4, 0), ID = Some 2,
      body = Some (example_body\<lparr>
        cp_part :=
          Some \<lparr>u_a_cp = [(- 1, 0, 0), (- 1, 0, 0)], u_n_cp = [(0, 0, - 1), (0, 0, - 1)],
                u_s_cp = [(0, - 1, 0), (0, - 1, 0)], control_points = [(0, 5, 0), (0, 7, 0)],
                c_bar_cp = [1, 1], dS = [2, 2], twist_cp = NdArray [0, 0],
                dihedral_cp = NdArray [0, 0], sweep_cp = NdArray [0, 0]\<rparr>,
        nodes_part := Some [(0, 4, 0), (0, 6, 0), (0, 8, 0)]\<rparr>)\<rparr>"

section \<open>Properties\<close>

subsection \<open>Span fractions: \<open>linspace\<close> and \<open>_initialize_params\<close>\<close>

lemma length_linspace: "length (linspace a b n) = n"
  by (simp add: linspace_def Let_def)

lemma linspace_nth:
  assumes "i < n"
  shows "linspace a b n ! i = (if n = 1 then a else a + real i * (b - a) / real (n - 1))"
proof (cases "1 < n")
  case False
  with assms have "n = 1" "i = 0" by simp_all
  then show ?thesis by (simp add: linspace_def Let_def)
next
  case True
  have body: "map (\<lambda>v. v + a) (if (b - a) / real (n - 1) = 0
                 then map (\<lambda>v. v / real (n - 1) * (b - a)) (map real [0..<n])
                 else map (\<lambda>v. v * ((b - a) / real (n - 1))) (map real [0..<n])) ! i
              = a + real i * (b - a) / real (n - 1)"
    using assms by (auto simp: field_simps)
  show ?thesis
  proof (cases "i = n - 1")
    case True
    with \<open>1 < n\<close> show ?thesis
      by (simp add: linspace_def Let_def)
  next
    case False
    with \<open>1 < n\<close> assms body show ?thesis
      by (simp add: linspace_def Let_def)
  qed
qed

lemma set_linspace_bounds:
  assumes "a \<le> b" "x \<in> set (linspace a b n)"
  shows "a \<le> x \<and> x \<le> b"
proof -
  from assms(2) obtain i where i: "i < n" "x = linspace a b n ! i"
    by (auto simp: in_set_conv_nth length_linspace)
  show ?thesis
  proof (cases "n = 1")
    case True
    with i assms(1) show ?thesis by (simp add: linspace_nth)
  next
    case False
    with i have n: "1 < n" by simp
    have x: "x = a + real i * (b - a) / real (n - 1)"
      using i False by (simp add: linspace_nth)
    have r: "0 \<le> real i" "real i \<le> real (n - 1)" "0 < real (n - 1)"
      using i n by simp_all
    have "0 \<le> real i * (b - a) / real (n - 1)"
      using r assms(1) by simp
    moreover have "real i * (b - a) / real (n - 1) \<le> b - a"
    proof -
      have "real i * (b - a) \<le> real (n - 1) * (b - a)"
        using r assms(1) by (intro mult_right_mono) simp_all
      then show ?thesis using r(3) by (simp add: field_simps)
    qed
    ultimately show ?thesis using x by simp
  qed
qed

lemma linspace_strict:
  assumes "a < b \<or> n \<le> 1"
  shows "sorted_wrt (<) (linspace a b n)"
proof (cases "n \<le> 1")
  case True
  then have "length (linspace a b n) \<le> 1" by (simp add: length_linspace)
  then show ?thesis
    by (cases "linspace a b n") (auto simp: Suc_le_eq)
next
  case False
  with assms have ab: "a < b" and n: "1 < n" by auto
  show ?thesis
    unfolding sorted_wrt_iff_nth_less length_linspace
  proof (intro allI impI)
    fix i j assume ij: "i < j" "j < n"
    then have "i < n" by simp
    have "real i * (b - a) < real j * (b - a)"
      using ij ab by simp
    then have "real i * (b - a) / real (n - 1) < real j * (b - a) / real (n - 1)"
      using n by (simp add: divide_strict_right_mono)
    then show "linspace a b n ! i < linspace a b n ! j"
      using ij \<open>i < n\<close> n by (simp add: linspace_nth)
  qed
qed

lemma cosine_map_bounds: "0 \<le> (1 - cos (t::real)) / 2 \<and> (1 - cos t) / 2 \<le> 1"
  using cos_ge_minus_one [of t] cos_le_one [of t] by simp

lemma cosine_map_strict:
  assumes "sorted_wrt (<) ts" "\<forall>t\<in>set ts. 0 \<le> t \<and> t \<le> pi"
  shows "sorted_wrt (<) (map (\<lambda>t. (1 - cos t) / 2) ts)"
proof -
  have "sorted_wrt (\<lambda>x y. (1 - cos x) / 2 < (1 - cos y) / 2) ts"
  proof (rule sorted_wrt_mono_rel [OF _ assms(1)])
    fix x y assume "x \<in> set ts" "y \<in> set ts" "x < y"
    with assms(2) have "0 \<le> x" "y \<le> pi" by auto
    with \<open>x < y\<close> have "cos y < cos x" by (intro cos_monotone_0_pi) simp_all
    then show "(1 - cos x) / 2 < (1 - cos y) / 2" by simp
  qed
  then show ?thesis by (simp add: sorted_wrt_map)
qed


lemma span_locs_ok:
  assumes "0 < n"
  shows "\<exists>nodes cps. span_locs c n = Inr (nodes, cps) \<and> length nodes = n + 1 \<and> length cps = n
           \<and> in_unit nodes \<and> in_unit cps \<and> sorted_wrt (<) nodes \<and> sorted_wrt (<) cps"
proof (cases c)
  case True
  let ?h = "pi / (2 * real n)"
  let ?nt = "linspace 0 pi (n + 1)"
  let ?ct = "map (\<lambda>t. t - ?h) (linspace (pi / real n) pi n)"
  have n1: "1 \<le> real n" using assms by simp
  have h: "0 < ?h" "pi / real n = 2 * ?h" "pi / real n \<le> pi"
    using assms n1 by (simp_all add: field_simps)
  have nt_b: "\<forall>t\<in>set ?nt. 0 \<le> t \<and> t \<le> pi"
    using set_linspace_bounds [of 0 pi] by auto
  have nt_s: "sorted_wrt (<) ?nt"
    by (rule linspace_strict) simp
  have ct_b: "\<forall>t\<in>set ?ct. 0 \<le> t \<and> t \<le> pi"
  proof
    fix t assume "t \<in> set ?ct"
    then obtain u where u: "u \<in> set (linspace (pi / real n) pi n)" "t = u - ?h" by auto
    from set_linspace_bounds [OF h(3) u(1)] have "pi / real n \<le> u" "u \<le> pi" by simp_all
    with h u(2) show "0 \<le> t \<and> t \<le> pi" by simp
  qed
  have "pi / real n < pi \<or> n \<le> 1"
  proof (cases "n \<le> 1")
    case False
    then have "1 < real n" by simp
    then have "pi / real n < pi / 1"
      by (intro divide_strict_left_mono) simp_all
    then show ?thesis by simp
  qed simp
  then have "sorted_wrt (<) (linspace (pi / real n) pi n)"
    by (rule linspace_strict)
  then have ct_s: "sorted_wrt (<) ?ct"
    by (simp add: sorted_wrt_map)
  have "span_locs c n
          = Inr (map (\<lambda>t. (1 - cos t) / 2) ?nt, map (\<lambda>t. (1 - cos t) / 2) ?ct)"
    using True assms by (simp add: span_locs_def Let_def)
  moreover have "in_unit (map (\<lambda>t. (1 - cos t) / 2) ?nt)" "in_unit (map (\<lambda>t. (1 - cos t) / 2) ?ct)"
    using cosine_map_bounds by (simp_all add: in_unit_def list_all_iff)
  ultimately show ?thesis
    using cosine_map_strict [OF nt_s nt_b] cosine_map_strict [OF ct_s ct_b]
    by (simp add: length_linspace)
next
  case False
  let ?a = "1 / (2 * real n)"
  have n1: "1 \<le> real n" using assms by simp
  have a: "0 < ?a" "?a \<le> 1 / 2"
    using assms n1 by (simp_all add: field_simps)
  have nodes_b: "in_unit (linspace 0 1 (n + 1))"
    using set_linspace_bounds [of 0 1] by (auto simp: in_unit_def list_all_iff)
  have nodes_s: "sorted_wrt (<) (linspace 0 1 (n + 1))"
    by (rule linspace_strict) simp
  have cps_b: "in_unit (linspace ?a (1 - ?a) n)"
    unfolding in_unit_def list_all_iff
  proof
    fix x assume "x \<in> set (linspace ?a (1 - ?a) n)"
    moreover have "?a \<le> 1 - ?a" using a by linarith
    ultimately have "?a \<le> x \<and> x \<le> 1 - ?a" by (rule set_linspace_bounds [rotated])
    with a show "0 \<le> x \<and> x \<le> 1" by linarith
  qed
  have "?a < 1 - ?a \<or> n \<le> 1"
  proof (cases "n \<le> 1")
    case False
    then have "2 \<le> real n" by simp
    then have "?a \<le> 1 / 4" by (simp add: field_simps)
    then show ?thesis by linarith
  qed simp
  then have cps_s: "sorted_wrt (<) (linspace ?a (1 - ?a) n)"
    by (rule linspace_strict)
  have "span_locs c n = Inr (linspace 0 1 (n + 1), linspace ?a (1 - ?a) n)"
    using False assms by (simp add: span_locs_def Let_def)
  then show ?thesis
    using nodes_b nodes_s cps_b cps_s by (simp add: length_linspace)
qed

text \<open>
  Claim C1. For every grid count \<open>N > 0\<close> and either clustering flag,
  \<open>_initialize_params\<close> returns, and leaves \<open>N + 1\<close> node span fractions and \<open>N\<close>
  control-point span fractions, all in \<open>[0, 1]\<close>, strictly monotonic (increasing, and
  decreasing for a left segment), the arrays of a left segment being the reverse of those
  of a right segment built from the same input.
\<close>

theorem initialize_params_span_fractions:
  assumes "0 < get_or (in_grid inp) 40"
  shows "\<exists>p. initialize_params inp sd = Inr p
           \<and> seg_N p = get_or (in_grid inp) 40
           \<and> length (node_span_locs p) = seg_N p + 1
           \<and> length (cp_span_locs p) = seg_N p
           \<and> in_unit (node_span_locs p) \<and> in_unit (cp_span_locs p)
           \<and> (if sd = ''left''
               then sorted_wrt (>) (node_span_locs p) \<and> sorted_wrt (>) (cp_span_locs p)
               else sorted_wrt (<) (node_span_locs p) \<and> sorted_wrt (<) (cp_span_locs p))
           \<and> (\<exists>l r. initialize_params inp ''left'' = Inr l
                    \<and> initialize_params inp ''right'' = Inr r
                    \<and> node_span_locs l = rev (node_span_locs r)
                    \<and> cp_span_locs l = rev (cp_span_locs r))"
proof -
  from span_locs_ok [OF assms, of "get_or (in_use_clustering inp) True"]
  obtain nodes cps where s:
    "span_locs (get_or (in_use_clustering inp) True) (get_or (in_grid inp) 40) = Inr (nodes, cps)"
    "length nodes = get_or (in_grid inp) 40 + 1" "length cps = get_or (in_grid inp) 40"
    "in_unit nodes" "in_unit cps" "sorted_wrt (<) nodes" "sorted_wrt (<) cps"
    by blast
  have rv: "sorted_wrt (>) (rev nodes)" "sorted_wrt (>) (rev cps)"
    using s(6,7) by (simp_all add: sorted_wrt_rev)
  have ru: "in_unit (rev nodes)" "in_unit (rev cps)"
    using s(4,5) by (simp_all add: in_unit_def list_all_iff)
  show ?thesis
    using s rv ru by (simp add: initialize_params_def Let_def bind_def)
qed

theorem initialize_params_span_fractions_witness:
  "0 < get_or (in_grid example_input) 40
   \<and> (\<exists>p. initialize_params example_input ''left'' = Inr p
          \<and> seg_N p = 2
          \<and> length (node_span_locs p) = 3
          \<and> length (cp_span_locs p) = 2
          \<and> in_unit (node_span_locs p) \<and> in_unit (cp_span_locs p)
          \<and> sorted_wrt (>) (node_span_locs p) \<and> sorted_wrt (>) (cp_span_locs p)
          \<and> (\<exists>l r. initialize_params example_input ''left'' = Inr l
                   \<and> initialize_params example_input ''right'' = Inr r
                   \<and> node_span_locs l = rev (node_span_locs r)
                   \<and> cp_span_locs l = rev (cp_span_locs r)))"
proof -
  have n: "get_or (in_grid example_input) 40 = 2"
    by (simp add: example_input_def get_or_def)
  then have h: "0 < get_or (in_grid example_input) 40"
    by simp
  from initialize_params_span_fractions [OF h, of "''left''"] h show ?thesis
    unfolding n by auto
qed

text \<open>The uniform grid with two cells, evaluated.\<close>

lemma span_locs_uniform_2: "span_locs False 2 = Inr ([0, 1 / 2, 1], [1 / 4, 3 / 4])"
  by (simp add: span_locs_def linspace_def Let_def upt_rec numeral_2_eq_2)

text \<open>The cosine-clustered grid with two cells.\<close>

lemma span_locs_cosine_2:
  "span_locs True 2 = Inr ([0, 1 / 2, 1], [(1 - cos (pi / 4)) / 2, (1 - cos (3 * pi / 4)) / 2])"
  by (simp add: span_locs_def linspace_def Let_def upt_rec numeral_2_eq_2 field_simps)

subsection \<open>Getters: \<open>_build_getter_linear_f_of_span\<close>\<close>

lemma bind_Inr: "bind (Inr x) f = f x"
  by (simp add: bind_def)

lemma bind_Inl: "bind (Inl e) f = Inl e"
  by (simp add: bind_def)

lemma bind_eq_Inr: "bind m f = Inr y \<longleftrightarrow> (\<exists>x. m = Inr x \<and> f x = Inr y)"
  by (cases m) (simp_all add: bind_def)

lemma mapM_Inr: "mapM (\<lambda>x. Inr (f x)) xs = Inr (map f xs)"
  by (induction xs) (simp_all add: bind_def)

lemma call_getter_float:
  "call_getter g (PyFloat x) =
     (case g of
        ConstGetter v \<Rightarrow> Inr (NdArray [v])
      | TableGetter t a \<Rightarrow>
          (case t of [] \<Rightarrow> Inl (ValueError ''array of sample points is empty'')
           | p # ps \<Rightarrow> Inr (NdArray [interp1 (if a then (fst p, radians (snd p)) else p)
                                          (if a then map (\<lambda>(s, v). (s, radians v)) ps else ps) x])))"
  by (auto simp: call_getter_def np_full_def np_interp_def item_def bind_def
           split: getter.splits list.splits prod.splits)

lemma call_getter_array:
  "call_getter g (NdArray xs) =
     (case g of
        ConstGetter v \<Rightarrow> Inr (NdArray (replicate (length xs) v))
      | TableGetter t a \<Rightarrow>
          (case t of [] \<Rightarrow> Inl (ValueError ''array of sample points is empty'')
           | p # ps \<Rightarrow> Inr (NdArray (map (interp1 (if a then (fst p, radians (snd p)) else p)
                                          (if a then map (\<lambda>(s, v). (s, radians v)) ps else ps)) xs))))"
  by (auto simp: call_getter_def np_full_def np_interp_def item_def bind_def
           split: getter.splits list.splits prod.splits)

lemma call_getter_float_is_array:
  "call_getter g (PyFloat x) = Inr v \<Longrightarrow> \<exists>y. v = NdArray [y]"
  by (auto simp: call_getter_float split: getter.splits list.splits)

lemma call_getter_array_shape:
  "call_getter g (NdArray xs) = Inr v \<Longrightarrow> shape v = shape (NdArray xs)"
  by (auto simp: call_getter_array shape_def split: getter.splits list.splits)

text \<open>
  Claim C2, at a failing input. A getter built by \<open>_build_getter_linear_f_of_span\<close>,
  constant or table, called with the float \<open>0.5\<close>, returns the array \<open>[2.]\<close> of shape
  \<open>(1,)\<close>, not the scalar \<open>2.0\<close>: the flag \<open>converted\<close> converts the local \<open>span\<close> back
  and leaves \<open>data\<close> an array. (By \<open>call_getter_float_is_array\<close> this is so for every
  getter and every float; by \<open>call_getter_array_shape\<close> an array is answered with an
  array of its shape.)
\<close>

theorem getter_scalar_returns_array:
  "call_getter (build_getter_linear_f_of_span (Constant 2) False) (PyFloat (1 / 2)) = Inr (NdArray [2])
   \<and> call_getter (build_getter_linear_f_of_span (Table [(0, 1), (1, 3)]) False) (PyFloat (1 / 2))
       = Inr (NdArray [2])"
  by (simp add: build_getter_linear_f_of_span_def call_getter_float interp1_def)

subsection \<open>The example segments are what \<open>__init__\<close> builds\<close>

lemmas eval_defs =
  the_body_def bind_Inr bind_Inl Let_def get_axial_vec_def initialize_getters_def get_or_def
  build_getter_linear_f_of_span_def getter_values_def call_getter_array span_array_def radians_def
  get_normal_vec_def get_span_vec_def get_section_ac_loc_def get_quarter_chord_loc_def ds_row_def
  midpoint_quad_def integrand_def call_getter_float np_map_def as_float_def times_b_def
  get_root_loc_def vadd_def chord_values_def call_chord_def scale_def
  get_cp_avg_chord_lengths_def setup_cp_data_def setup_node_data_def initialize_airfoils_def
  setup_control_surface_def flap_chord_frac_def empty_connect_def

lemma example_params_built:
  "initialize_params example_input ''right'' = Inr (params_part example_body)"
  by (simp add: initialize_params_def example_input_def example_body_def get_or_def
        span_locs_uniform_2 bind_Inr empty_connect_def)

lemma example_wing_built:
  "WingSegment_init midpoint_quad ''wing_right'' example_input ''right'' ''SI'' example_airfoils (0, 0, 0)
     = Inr (WingSegment example_wing [])"
proof -
  have p: "initialize_params example_input ''right'' = Inr (params_part example_body)"
    by (rule example_params_built)
  show ?thesis
    unfolding WingSegment_init_def p
    by (simp add: eval_defs example_body_def example_wing_def example_airfoils_def
          example_input_def numeral_2_eq_2 numeral_3_eq_3)
qed

lemma flap_wing_built:
  "WingSegment_init midpoint_quad ''wing_right'' flap_input ''right'' ''SI'' example_airfoils (0, 0, 0)
     = Inr (WingSegment flap_wing [])"
proof -
  have p: "initialize_params flap_input ''right'' = Inr (params_part example_body)"
    by (simp add: initialize_params_def flap_input_def example_input_def example_body_def get_or_def
        span_locs_uniform_2 bind_Inr empty_connect_def)
  show ?thesis
    unfolding WingSegment_init_def p
    by (simp add: eval_defs example_body_def example_wing_def example_airfoils_def flap_wing_def
          flap_body_def example_control_def example_eta_def
          example_input_def flap_input_def numeral_2_eq_2 numeral_3_eq_3)
qed

lemma origin_built:
  "WingSegment_init q ''origin'' origin_input ''both'' ''SI'' example_airfoils (0, 0, 0)
     = Inr (WingSegment origin_fields [])"
  by (simp add: WingSegment_init_def origin_input_def origin_fields_def)

subsection \<open>What a successful \<open>__init__\<close> leaves\<close>

lemma setup_cp_data_Inr:
  assumes "setup_cp_data q self = Inr self'"
  shows "\<exists>bd c. body self = Some bd \<and> self' = self\<lparr>body := Some (bd\<lparr>cp_part := Some c\<rparr>)\<rparr>"
  using assms
  by (cases "body self") (auto simp: setup_cp_data_def the_body_def bind_def Let_def split: sum.splits option.splits)

lemma setup_node_data_Inr:
  assumes "setup_node_data q self = Inr self'"
  shows "\<exists>bd ns. body self = Some bd \<and> self' = self\<lparr>body := Some (bd\<lparr>nodes_part := Some ns\<rparr>)\<rparr>"
  using assms
  by (cases "body self") (auto simp: setup_node_data_def the_body_def bind_def Let_def split: sum.splits)

lemma WingSegment_init_body:
  assumes "WingSegment_init q nm inp sd us ad orig = Inr seg" "in_ID inp \<noteq> Some 0"
  shows "\<exists>bd. body (fields seg) = Some bd
           \<and> name (fields seg) = nm \<and> side (fields seg) = sd \<and> origin (fields seg) = orig
           \<and> ID (fields seg) = in_ID inp
           \<and> attached_segments seg = []
           \<and> initialize_params inp sd = Inr (params_part bd)
           \<and> getters_part bd = initialize_getters inp
           \<and> initialize_airfoils inp ad = Inr (airfoils_part bd)
           \<and> setup_control_surface (in_control_surface inp) (params_part bd) = Inr (flap_part bd)"
proof -
  let ?self0 = "\<lparr>name = nm, inp_dict = inp, unit_sys = us, side = sd, origin = orig,
                  ID = in_ID inp, body = None\<rparr>"
  from assms obtain p a fl self1 self2 where
    p: "initialize_params inp sd = Inr p" and
    a: "initialize_airfoils inp ad = Inr a" and
    fl: "setup_control_surface (in_control_surface inp) p = Inr fl" and
    s1: "setup_cp_data q (?self0\<lparr>body := Some \<lparr>params_part = p,
             getters_part = initialize_getters inp, airfoils_part = a, flap_part = fl,
             cp_part = None, nodes_part = None\<rparr>\<rparr>) = Inr self1" and
    s2: "setup_node_data q self1 = Inr self2" and
    seg: "seg = WingSegment self2 []"
    by (auto simp: WingSegment_init_def Let_def bind_eq_Inr split: if_splits)
  from setup_cp_data_Inr [OF s1] obtain c where
    self1: "self1 = ?self0\<lparr>body := Some \<lparr>params_part = p,
             getters_part = initialize_getters inp, airfoils_part = a, flap_part = fl,
             cp_part = Some c, nodes_part = None\<rparr>\<rparr>"
    by auto
  from setup_node_data_Inr [OF s2] self1 obtain ns where
    self2: "self2 = ?self0\<lparr>body := Some \<lparr>params_part = p,
             getters_part = initialize_getters inp, airfoils_part = a, flap_part = fl,
             cp_part = Some c, nodes_part = Some ns\<rparr>\<rparr>"
    by auto
  show ?thesis
    using p a fl seg self2 by simp
qed

subsection \<open>\<open>apply_control\<close> and \<open>get_cp_flap\<close>\<close>

lemma setup_control_surface_None:
  "setup_control_surface None p = Inr fl \<Longrightarrow> control fl = None"
  by (auto simp: setup_control_surface_def)

text \<open>
  Claim C7 fails at the origin segment. \<open>__init__\<close> runs \<open>_setup_control_surface\<close> only
  for a segment whose ID is not 0 (``these do not need to be run for the origin
  segment''), so the origin segment, which is constructed without a \<open>control_surface\<close>
  entry, has no attribute \<open>_has_control_surface\<close>: \<open>get_cp_flap()\<close> raises
  \<open>AttributeError\<close> and does not return 0.
\<close>

theorem no_control_surface_origin_counterexample:
  "in_control_surface origin_input = None
   \<and> WingSegment_init midpoint_quad ''origin'' origin_input ''both'' ''SI'' example_airfoils (0, 0, 0)
       = Inr (WingSegment origin_fields [])
   \<and> get_cp_flap origin_fields = Inl (AttributeError ''WingSegment object has no such attribute'')
   \<and> get_cp_flap origin_fields \<noteq> Inr (PyFloat 0)"
  by (simp add: origin_built)
     (simp add: origin_input_def example_input_def origin_fields_def get_cp_flap_def the_body_def bind_def)

text \<open>
  Claim C7, amended. For every segment whose ID is not 0 that \<open>__init__\<close> has built from
  an input without a \<open>control_surface\<close> entry, \<open>get_cp_flap()\<close> returns \<open>0.0\<close>, and
  \<open>apply_control\<close> returns without an exception and leaves the segment as it was, for
  every control state and control symmetry.
\<close>

theorem no_control_surface_noop:
  assumes "WingSegment_init q nm inp sd us ad orig = Inr seg"
    and "in_ID inp \<noteq> Some 0"
    and "in_control_surface inp = None"
  shows "get_cp_flap (fields seg) = Inr (PyFloat 0)
         \<and> apply_control (fields seg) control_state control_symmetry = (fields seg, None)"
proof -
  from WingSegment_init_body [OF assms(1,2)] assms(3) obtain bd where
    bd: "body (fields seg) = Some bd" and
    fl: "setup_control_surface None (params_part bd) = Inr (flap_part bd)"
    by auto
  from fl have c: "control (flap_part bd) = None"
    by (rule setup_control_surface_None)
  show ?thesis
    using bd c by (simp add: get_cp_flap_def the_body_def bind_def has_control_surface_def
        apply_control_def)
qed

theorem no_control_surface_noop_witness:
  "WingSegment_init midpoint_quad ''wing_right'' example_input ''right'' ''SI'' example_airfoils (0, 0, 0)
     = Inr (WingSegment example_wing [])
   \<and> in_ID example_input \<noteq> Some 0
   \<and> in_control_surface example_input = None
   \<and> get_cp_flap example_wing = Inr (PyFloat 0)
   \<and> apply_control example_wing [(''elevator'', 5)] [''elevator'' \<mapsto> True] = (example_wing, None)"
proof -
  have h: "in_ID example_input \<noteq> Some 0" "in_control_surface example_input = None"
    by (simp_all add: example_input_def)
  from no_control_surface_noop [OF example_wing_built h] example_wing_built h
  show ?thesis by simp
qed


lemma control_loop_returns:
  "sd = ''right'' \<or> list_all (\<lambda>(k, v). csym k \<noteq> None) cs
     \<Longrightarrow> snd (control_loop sd mixing csym cs acc) = None"
  by (induction cs arbitrary: acc) (auto split: option.splits)

lemma apply_control_returns:
  assumes "body self = Some bd" "control (flap_part bd) = Some cs"
    and "side self = ''right'' \<or> list_all (\<lambda>(k, v). control_symmetry k \<noteq> None) control_state"
  shows "snd (apply_control self control_state control_symmetry) = None"
proof -
  from control_loop_returns [OF assms(3)]
  obtain d where "control_loop (side self) (control_mixing cs) control_symmetry control_state 0 = (d, None)"
    by (metis prod.collapse)
  then show ?thesis
    using assms(1,2) by (simp add: apply_control_def Let_def)
qed


lemma flap_wing_elevator:
  "apply_control flap_wing [(''elevator'', v)] Map.empty
     = (flap_wing\<lparr>body := Some (flap_body\<lparr>flap_part := (flap_part flap_body)
          \<lparr>delta_flap := radians v, eta_defl := Some (deflection_efficiency v),
           flap_eff := Some [example_eta * deflection_efficiency v,
                             example_eta * deflection_efficiency v]\<rparr>\<rparr>)\<rparr>, None)"
  by (simp add: apply_control_def flap_wing_def flap_body_def example_wing_def example_control_def
        get_or_def Let_def)



text \<open>
  Claim C10. \<open>apply_control\<close> called a second time with the same control state and
  control symmetry leaves the segment, and raises or returns, as the first call did. On
  a segment with a control surface a call that returns leaves a state that does not
  depend on the deflection, deflection efficiency and flap efficiency stored before:
  \<open>self._delta_flap\<close> is reset to zero before the loop, and the other two are overwritten.
\<close>

theorem apply_control_idempotent:
  "apply_control (fst (apply_control self control_state control_symmetry)) control_state control_symmetry
     = apply_control self control_state control_symmetry
   \<and> (\<forall>bd d e f.
         body self = Some bd \<longrightarrow> snd (apply_control self control_state control_symmetry) = None \<longrightarrow>
         control (flap_part bd) \<noteq> None \<longrightarrow>
         apply_control (self\<lparr>body := Some (bd\<lparr>flap_part := (flap_part bd)
              \<lparr>delta_flap := d, eta_defl := e, flap_eff := f\<rparr>\<rparr>)\<rparr>) control_state control_symmetry
           = apply_control self control_state control_symmetry)"
proof (cases "body self")
  case None
  then show ?thesis by (simp add: apply_control_def)
next
  case (Some bd)
  show ?thesis
  proof (cases "control (flap_part bd)")
    case None
    with Some show ?thesis by (simp add: apply_control_def)
  next
    case (Some cs)
    obtain d err where l:
      "control_loop (side self) (control_mixing cs) control_symmetry control_state 0 = (d, err)"
      by (cases "control_loop (side self) (control_mixing cs) control_symmetry control_state 0")
    show ?thesis
      using \<open>body self = Some bd\<close> Some l
      by (cases err) (simp_all add: apply_control_def Let_def)
  qed
qed

theorem apply_control_idempotent_witness:
  "apply_control (fst (apply_control flap_wing [(''elevator'', 20)] Map.empty)) [(''elevator'', 20)] Map.empty
     = apply_control flap_wing [(''elevator'', 20)] Map.empty
   \<and> body flap_wing = Some flap_body
   \<and> snd (apply_control flap_wing [(''elevator'', 20)] Map.empty) = None
   \<and> control (flap_part flap_body) \<noteq> None
   \<and> apply_control (flap_wing\<lparr>body := Some (flap_body\<lparr>flap_part := (flap_part flap_body)
         \<lparr>delta_flap := 7, eta_defl := Some 0, flap_eff := None\<rparr>\<rparr>)\<rparr>) [(''elevator'', 20)] Map.empty
       = apply_control flap_wing [(''elevator'', 20)] Map.empty"
proof -
  have b: "body flap_wing = Some flap_body" "control (flap_part flap_body) \<noteq> None"
    by (simp_all add: flap_wing_def flap_body_def)
  have r: "snd (apply_control flap_wing [(''elevator'', 20)] Map.empty) = None"
    by (simp add: flap_wing_elevator)
  from apply_control_idempotent [of flap_wing "[(''elevator'', 20)]" Map.empty] b r
  show ?thesis by blast
qed

lemma dihedral_wing_built:
  "WingSegment_init midpoint_quad ''wing_right'' dihedral_input ''right'' ''SI'' example_airfoils (0, 0, 0)
     = Inr (WingSegment dihedral_wing [])"
proof -
  have p: "initialize_params dihedral_input ''right'' = Inr (params_part example_body)"
    by (simp add: initialize_params_def dihedral_input_def example_input_def example_body_def get_or_def
        span_locs_uniform_2 bind_Inr empty_connect_def)
  show ?thesis
    unfolding WingSegment_init_def p
    by (simp add: eval_defs example_body_def example_wing_def example_airfoils_def dihedral_wing_def
          dihedral_body_def example_input_def dihedral_input_def numeral_2_eq_2 numeral_3_eq_3)
qed

subsection \<open>Orientation: \<open>_get_normal_vec\<close>\<close>

lemma call_getter_singleton: "call_getter g (NdArray [x]) = call_getter g (PyFloat x)"
  by (simp add: call_getter_array call_getter_float split: getter.splits list.splits)

lemma getter_values_pointwise:
  assumes "getter_values g xs = Inr ys"
  shows "length ys = length xs
         \<and> (\<forall>i<length xs. call_getter g (PyFloat (xs ! i)) = Inr (NdArray [ys ! i]))"
  using assms
  by (auto simp: getter_values_def call_getter_array call_getter_float bind_def
           split: getter.splits list.splits)

lemma getter_values_float:
  "call_getter g (PyFloat s) = Inr (NdArray [v]) \<Longrightarrow> getter_values g [s] = Inr [v]"
  by (simp add: getter_values_def call_getter_singleton bind_def)

text \<open>
  Claim C4 fails on a right segment with zero twist and a dihedral of 90 degrees: the
  normal vector at mid-span is \<open>(0, -1, 0)\<close>, and the claimed
  \<open>(-sin \<tau> cos \<delta>, +sin \<delta>, -cos \<tau> cos \<delta>)\<close> is \<open>(0, 1, 0)\<close>.
\<close>

theorem normal_vec_right_counterexample:
  "WingSegment_init midpoint_quad ''wing_right'' dihedral_input ''right'' ''SI'' example_airfoils (0, 0, 0)
     = Inr (WingSegment dihedral_wing [])
   \<and> call_getter (get_twist (getters_part dihedral_body)) (PyFloat (1 / 2)) = Inr (NdArray [0])
   \<and> call_getter (get_dihedral (getters_part dihedral_body)) (PyFloat (1 / 2)) = Inr (NdArray [pi / 2])
   \<and> get_normal_vec dihedral_wing (PyFloat (1 / 2)) = Inr [(0, - 1, 0)]
   \<and> [(0 :: real, - 1 :: real, 0 :: real)]
        \<noteq> [(- sin 0 * cos (pi / 2), sin (pi / 2), - cos 0 * cos (pi / 2))]"
  by (simp add: dihedral_wing_built)
     (simp add: dihedral_wing_def dihedral_body_def example_body_def example_wing_def
        get_normal_vec_def the_body_def bind_def getter_values_def call_getter_array
        call_getter_float span_array_def)

text \<open>
  Claim C4, amended: the signs of the middle component are the other way round. For
  every span fraction \<open>s\<close> at which the twist getter returns \<open>\<tau>\<close> and the dihedral getter
  \<open>\<delta>\<close>, \<open>_get_normal_vec(s)\<close> returns the one row
  \<open>(-sin \<tau> cos \<delta>, +sin \<delta>, -cos \<tau> cos \<delta>)\<close> on a left segment and
  \<open>(-sin \<tau> cos \<delta>, -sin \<delta>, -cos \<tau> cos \<delta>)\<close> on any other; called with an array it
  returns one row per entry, the row it returns for that entry alone.
\<close>

theorem normal_vec_components:
  assumes "body self = Some bd"
    and "call_getter (get_twist (getters_part bd)) (PyFloat s) = Inr (NdArray [tau])"
    and "call_getter (get_dihedral (getters_part bd)) (PyFloat s) = Inr (NdArray [delta])"
  shows "get_normal_vec self (PyFloat s)
           = Inr [(- sin tau * cos delta,
                   (if side self = ''left'' then sin delta else - sin delta),
                   - cos tau * cos delta)]
         \<and> (\<forall>xs rows. get_normal_vec self (NdArray xs) = Inr rows \<longrightarrow>
               length rows = length xs
               \<and> (\<forall>i<length xs. get_normal_vec self (PyFloat (xs ! i)) = Inr [rows ! i]))"
proof
  show "get_normal_vec self (PyFloat s)
           = Inr [(- sin tau * cos delta,
                   (if side self = ''left'' then sin delta else - sin delta),
                   - cos tau * cos delta)]"
    using assms(1) getter_values_float [OF assms(2)] getter_values_float [OF assms(3)]
    by (simp add: get_normal_vec_def the_body_def bind_def span_array_def)
next
  show "\<forall>xs rows. get_normal_vec self (NdArray xs) = Inr rows \<longrightarrow>
               length rows = length xs
               \<and> (\<forall>i<length xs. get_normal_vec self (PyFloat (xs ! i)) = Inr [rows ! i])"
  proof (intro allI impI)
    fix xs rows
    assume r: "get_normal_vec self (NdArray xs) = Inr rows"
    from r assms(1) obtain ts ds where
      ts: "getter_values (get_twist (getters_part bd)) xs = Inr ts" and
      ds: "getter_values (get_dihedral (getters_part bd)) xs = Inr ds" and
      rows: "rows = (if side self = ''left''
                     then map (\<lambda>(t, d). (- sin t * cos d, sin d, - cos t * cos d)) (zip ts ds)
                     else map (\<lambda>(t, d). (- sin t * cos d, - sin d, - cos t * cos d)) (zip ts ds))"
      by (auto simp: get_normal_vec_def the_body_def bind_eq_Inr span_array_def split: if_splits)
    from getter_values_pointwise [OF ts] getter_values_pointwise [OF ds]
    have len: "length ts = length xs" "length ds = length xs"
      and pt: "\<forall>i<length xs. call_getter (get_twist (getters_part bd)) (PyFloat (xs ! i)) = Inr (NdArray [ts ! i])"
      and pd: "\<forall>i<length xs. call_getter (get_dihedral (getters_part bd)) (PyFloat (xs ! i)) = Inr (NdArray [ds ! i])"
      by simp_all
    have "length rows = length xs"
      using rows len by simp
    moreover have "get_normal_vec self (PyFloat (xs ! i)) = Inr [rows ! i]" if "i < length xs" for i
    proof -
      from that pt pd have
        "getter_values (get_twist (getters_part bd)) [xs ! i] = Inr [ts ! i]"
        "getter_values (get_dihedral (getters_part bd)) [xs ! i] = Inr [ds ! i]"
        by (simp_all add: getter_values_float)
      then show ?thesis
        using assms(1) rows len that
        by (simp add: get_normal_vec_def the_body_def bind_def span_array_def)
    qed
    ultimately show "length rows = length xs
               \<and> (\<forall>i<length xs. get_normal_vec self (PyFloat (xs ! i)) = Inr [rows ! i])"
      by simp
  qed
qed

theorem normal_vec_components_witness:
  "body dihedral_wing = Some dihedral_body
   \<and> call_getter (get_twist (getters_part dihedral_body)) (PyFloat (1 / 2)) = Inr (NdArray [0])
   \<and> call_getter (get_dihedral (getters_part dihedral_body)) (PyFloat (1 / 2)) = Inr (NdArray [pi / 2])
   \<and> get_normal_vec dihedral_wing (PyFloat (1 / 2)) = Inr [(0, - 1, 0)]
   \<and> get_normal_vec dihedral_wing (NdArray [1 / 4, 3 / 4]) = Inr [(0, - 1, 0), (0, - 1, 0)]
   \<and> get_normal_vec dihedral_wing (PyFloat ([1 / 4, 3 / 4] ! 1)) = Inr [[(0, - 1, 0), (0, - 1, 0)] ! 1]"
proof -
  have b: "body dihedral_wing = Some dihedral_body"
    by (simp add: dihedral_wing_def)
  have t: "call_getter (get_twist (getters_part dihedral_body)) (PyFloat (1 / 2)) = Inr (NdArray [0])"
    and d: "call_getter (get_dihedral (getters_part dihedral_body)) (PyFloat (1 / 2)) = Inr (NdArray [pi / 2])"
    by (simp_all add: dihedral_body_def example_body_def call_getter_float)
  have a: "get_normal_vec dihedral_wing (NdArray [1 / 4, 3 / 4]) = Inr [(0, - 1, 0), (0, - 1, 0)]"
    by (simp add: dihedral_wing_def dihedral_body_def example_body_def example_wing_def
        get_normal_vec_def the_body_def bind_def getter_values_def call_getter_array span_array_def)
  have s: "side dihedral_wing \<noteq> ''left''"
    by (simp add: dihedral_wing_def example_wing_def)
  from normal_vec_components [OF b t d] a have
    "get_normal_vec dihedral_wing (PyFloat (1 / 2)) = Inr [(0, - 1, 0)]"
    "get_normal_vec dihedral_wing (PyFloat ([1 / 4, 3 / 4] ! 1)) = Inr [[(0, - 1, 0), (0, - 1, 0)] ! 1]"
    using s by (simp, fastforce)
  with b t d a show ?thesis by simp
qed

subsection \<open>Locations on a straight segment\<close>

lemma interp_walk_zero:
  "snd p = 0 \<Longrightarrow> list_all (\<lambda>(s, v). v = 0) ps \<Longrightarrow> interp_walk x p ps = 0"
proof (induction x p ps rule: interp_walk.induct)
  case (1 x x0 f0)
  then show ?case by simp
next
  case (2 x x0 f0 x1 f1 rest)
  then show ?case by simp
qed

lemma last_zero:
  "snd p = 0 \<Longrightarrow> list_all (\<lambda>(s, v). v = 0) ps \<Longrightarrow> snd (last (p # ps)) = 0"
  by (induction ps arbitrary: p) (auto split: if_splits)

lemma interp1_zero:
  "snd p = 0 \<Longrightarrow> list_all (\<lambda>(s, v). v = 0) ps \<Longrightarrow> interp1 p ps x = 0"
  using last_zero [of p ps] by (simp add: interp1_def interp_walk_zero)

lemma zero_getter_float:
  assumes "zero_getter g"
  shows "call_getter g (PyFloat s) = Inr (NdArray [0])"
proof (cases g)
  case (ConstGetter v)
  with assms show ?thesis by (simp add: zero_getter_def call_getter_float)
next
  case (TableGetter t a)
  with assms obtain p ps where t: "t = p # ps" "snd p = 0" "list_all (\<lambda>(s, v). v = 0) ps"
    by (cases t) (auto simp: zero_getter_def)
  have r: "list_all (\<lambda>(s, v). v = 0) (map (\<lambda>(s, v). (s, radians v)) ps)"
    using t(3) by (auto simp: list_all_iff radians_def)
  show ?thesis
    using TableGetter t r
    by (cases a) (simp_all add: call_getter_float interp1_zero radians_def)
qed

lemma integrand_zero:
  assumes "zero_getter g"
  shows "integrand g f = (\<lambda>s. Inr (f 0))"
  by (rule ext) (simp add: integrand_def zero_getter_float [OF assms] bind_def np_map_def as_float_def)

lemma ds_row_straight:
  assumes "exact_on_constants q" and "body self = Some bd"
    and "seg_b (params_part bd) = Some b"
    and "zero_getter (get_sweep (getters_part bd))" and "zero_getter (get_dihedral (getters_part bd))"
  shows "ds_row q self s = Inr (0, (if side self = ''left'' then - (b * s) else b * s), 0)"
proof -
  have q: "q (\<lambda>s. Inr c) 0 s = Inr (c * s)" for c
    using assms(1) by (simp add: exact_on_constants_def)
  show ?thesis
    using assms(2,3)
    by (simp add: ds_row_def the_body_def bind_def Let_def integrand_zero [OF assms(4)]
          integrand_zero [OF assms(5)] q times_b_def)
qed

text \<open>
  Claim C8. On a segment (ID other than 0) of semispan \<open>b\<close> with zero sweep and zero
  dihedral, whatever its twist, and with a quad that integrates constants exactly: the
  tip location is the root location plus \<open>(0, b, 0)\<close>, and plus \<open>(0, -b, 0)\<close> on a left
  segment; the quarter-chord location at the span fraction \<open>s\<close> is the root location plus
  \<open>s\<close> times that vector, for a float and for every entry of an array.
\<close>

theorem straight_segment_locations:
  assumes "exact_on_constants q" and "body self = Some bd" and "ID self \<noteq> Some 0"
    and "seg_b (params_part bd) = Some b"
    and "zero_getter (get_sweep (getters_part bd))" and "zero_getter (get_dihedral (getters_part bd))"
  shows "\<exists>root. get_root_loc self = Inr root
           \<and> get_tip_loc q self
               = Inr (Vec (vadd root (0, (if side self = ''left'' then - b else b), 0)))
           \<and> (\<forall>s. get_quarter_chord_loc q self (PyFloat s)
                     = Inr (Vec (vadd root (scale s (0, (if side self = ''left'' then - b else b), 0)))))
           \<and> (\<forall>ss. get_quarter_chord_loc q self (NdArray ss)
                     = Inr (Rows (map (\<lambda>s. vadd root
                              (scale s (0, (if side self = ''left'' then - b else b), 0))) ss)))"
proof -
  let ?root = "vadd (origin self) (delta_origin (params_part bd))"
  let ?t = "(0, (if side self = ''left'' then - b else b), 0) :: vec3"
  have root: "get_root_loc self = Inr ?root"
    using assms(2,3) by (simp add: get_root_loc_def the_body_def bind_def)
  have row: "ds_row q self s = Inr (scale s ?t)" for s
    using ds_row_straight [OF assms(1,2,4,5,6)] by (simp add: scale_def)
  have f: "get_quarter_chord_loc q self (PyFloat s) = Inr (Vec (vadd ?root (scale s ?t)))" for s
    by (simp add: get_quarter_chord_loc_def row root bind_def)
  have a: "get_quarter_chord_loc q self (NdArray ss)
             = Inr (Rows (map (\<lambda>s. vadd ?root (scale s ?t)) ss))" for ss
  proof -
    have "ds_row q self = (\<lambda>s. Inr (scale s ?t))"
      by (rule ext) (rule row)
    then have "mapM (ds_row q self) ss = Inr (map (\<lambda>s. scale s ?t) ss)"
      by (simp add: mapM_Inr)
    then show ?thesis
      by (simp add: get_quarter_chord_loc_def root bind_def comp_def)
  qed
  have "scale 1 ?t = ?t"
    by (simp add: scale_def)
  with f [of 1] have tip: "get_tip_loc q self = Inr (Vec (vadd ?root ?t))"
    using assms(3) by (simp add: get_tip_loc_def)
  from root tip f a show ?thesis
    by blast
qed

lemma midpoint_quad_exact: "exact_on_constants midpoint_quad"
  by (simp add: exact_on_constants_def midpoint_quad_def bind_def)

theorem straight_segment_locations_witness:
  "exact_on_constants midpoint_quad \<and> body example_wing = Some example_body
   \<and> ID example_wing \<noteq> Some 0 \<and> seg_b (params_part example_body) = Some 4
   \<and> zero_getter (get_sweep (getters_part example_body))
   \<and> zero_getter (get_dihedral (getters_part example_body))
   \<and> get_root_loc example_wing = Inr (0, 0, 0)
   \<and> get_tip_loc midpoint_quad example_wing = Inr (Vec (0, 4, 0))
   \<and> get_quarter_chord_loc midpoint_quad example_wing (PyFloat (1 / 4)) = Inr (Vec (0, 1, 0))
   \<and> get_quarter_chord_loc midpoint_quad example_wing (NdArray [0, 1 / 2, 1])
       = Inr (Rows [(0, 0, 0), (0, 2, 0), (0, 4, 0)])"
proof -
  have h: "body example_wing = Some example_body" "ID example_wing \<noteq> Some 0"
    "seg_b (params_part example_body) = Some 4"
    "zero_getter (get_sweep (getters_part example_body))"
    "zero_getter (get_dihedral (getters_part example_body))"
    by (simp_all add: example_wing_def example_body_def zero_getter_def)
  have r: "get_root_loc example_wing = Inr (0, 0, 0)"
    by (simp add: get_root_loc_def example_wing_def example_body_def the_body_def bind_def vadd_def)
  have s: "side example_wing \<noteq> ''left''"
    by (simp add: example_wing_def)
  from straight_segment_locations [OF midpoint_quad_exact h] r s
  have "get_tip_loc midpoint_quad example_wing = Inr (Vec (0, 4, 0))"
    "get_quarter_chord_loc midpoint_quad example_wing (PyFloat (1 / 4)) = Inr (Vec (0, 1, 0))"
    "get_quarter_chord_loc midpoint_quad example_wing (NdArray [0, 1 / 2, 1])
       = Inr (Rows [(0, 0, 0), (0, 2, 0), (0, 4, 0)])"
    by (simp_all add: vadd_def scale_def)
  with midpoint_quad_exact h r show ?thesis
    by simp
qed

subsection \<open>Attaching a segment\<close>

lemma find_append:
  "find P (xs @ ys) = (case find P xs of None \<Rightarrow> find P ys | Some x \<Rightarrow> Some x)"
  by (induction xs) simp_all

lemma map_of_dict_set: "map_of (dict_set d k v) k = Some v"
  by (induction d k v rule: dict_set.induct) simp_all

lemma attach_below:
  fixes q :: quad and nm :: string and inp :: input_dict and us :: string
    and ad :: "(string \<times> airfoil) list"
  defines "hit \<equiv> (\<lambda>s. ID (fields s) = Some (parent_ID inp))"
  shows "(\<forall>s\<in>set (search_order sd t). ID (fields s) \<noteq> Some 0) \<Longrightarrow>
           (case find hit (search_order sd t) of
              None \<Rightarrow> attach_seg q nm inp sd us ad t = NotAttached
            | Some p \<Rightarrow>
                (case construct_at q nm inp sd us ad p of
                   Inl e \<Rightarrow> attach_seg q nm inp sd us ad t = Raised e
                 | Inr new \<Rightarrow>
                     (\<exists>t'. attach_seg q nm inp sd us ad t = Attached new t'
                          \<and> find hit (search_order sd t') = Some (registered p nm new))))"
    and "(\<forall>s\<in>set (search_order_children sd ch). ID (fields s) \<noteq> Some 0) \<Longrightarrow>
           (case find hit (search_order_children sd ch) of
              None \<Rightarrow> attach_children q nm inp sd us ad ch = NotAttached
            | Some p \<Rightarrow>
                (case construct_at q nm inp sd us ad p of
                   Inl e \<Rightarrow> attach_children q nm inp sd us ad ch = Raised e
                 | Inr new \<Rightarrow>
                     (\<exists>ch'. attach_children q nm inp sd us ad ch = Attached new ch'
                          \<and> find hit (search_order_children sd ch') = Some (registered p nm new))))"
proof (induction sd t and sd ch rule: search_order_search_order_children.induct)
  case (1 sd self children)
  show ?case
  proof (cases "ID self = Some (parent_ID inp)")
    case True
    then show ?thesis
      by (auto simp: hit_def construct_at_def registered_def split: sum.splits)
  next
    case False
    from 1 have "\<forall>s\<in>set (search_order_children sd children). ID (fields s) \<noteq> Some 0"
      and z: "ID self \<noteq> Some 0"
      by simp_all
    from "1.IH" [OF this(1)] False z show ?thesis
      by (auto simp: hit_def split: option.splits sum.splits)
  qed
next
  case (2 sd)
  show ?case by simp
next
  case (3 sd key child rest)
  from "3.prems" have r: "\<forall>s\<in>set (search_order_children sd rest). ID (fields s) \<noteq> Some 0"
    by simp
  note rest = "3.IH"(2) [OF r]
  show ?case
  proof (cases "str_contains key sd")
    case False
    with rest show ?thesis
      by (auto split: option.splits sum.splits)
  next
    case True
    with "3.prems" have c: "\<forall>s\<in>set (search_order sd child). ID (fields s) \<noteq> Some 0"
      by simp
    note child = "3.IH"(1) [OF True c]
    show ?thesis
    proof (cases "find hit (search_order sd child)")
      case None
      with child rest True show ?thesis
        by (auto simp: find_append split: option.splits sum.splits)
    next
      case (Some p)
      with child True show ?thesis
        by (auto simp: find_append split: option.splits sum.splits)
    qed
  qed
qed

text \<open>
  Claim C6, amended. \<open>attach_wing_segment\<close> on the root (ID 0) looks for the parent among
  the segments its search can visit: the root, and below a segment the children whose
  key contains the side string of the new segment (no child below the root having the ID
  0, which \<open>__init__\<close> allows to a segment named \<open>origin\<close> only). If none of them has the
  declared \<open>connect_to\<close> ID, it raises the \<open>RuntimeError\<close> ``Could not attach''. Otherwise
  the new segment is built at the root or tip location of the first such segment; an
  exception of that is passed on, and if there is none the new segment is returned and
  is registered under its name in that parent's children.
\<close>

theorem attach_resolution:
  assumes "ID (fields tree) = Some 0"
    and "\<forall>s\<in>set (search_order_children sd (attached_segments tree)). ID (fields s) \<noteq> Some 0"
  shows "case first_match sd (parent_ID inp) tree of
           None \<Rightarrow> attach_wing_segment q tree nm inp sd us ad = Raised could_not_attach
         | Some p \<Rightarrow>
             (case construct_at q nm inp sd us ad p of
                Inl e \<Rightarrow> attach_wing_segment q tree nm inp sd us ad = Raised e
              | Inr new \<Rightarrow>
                  (\<exists>tree'. attach_wing_segment q tree nm inp sd us ad = Attached new tree'
                     \<and> first_match sd (parent_ID inp) tree' = Some (registered p nm new)
                     \<and> map_of (attached_segments (registered p nm new)) nm = Some new))"
proof -
  obtain self children where tree: "tree = WingSegment self children"
    by (cases tree)
  with assms have self: "ID self = Some 0"
    and ch: "\<forall>s\<in>set (search_order_children sd children). ID (fields s) \<noteq> Some 0"
    by simp_all
  have reg: "map_of (attached_segments (registered p nm new)) nm = Some new" for p new
    by (simp add: registered_def map_of_dict_set)
  show ?thesis
  proof (cases "parent_ID inp = 0")
    case True
    with self tree show ?thesis
      by (auto simp: first_match_def attach_wing_segment_def construct_at_def registered_def
            map_of_dict_set split: sum.splits)
  next
    case False
    with self have nohit: "ID self \<noteq> Some (parent_ID inp)"
      by simp
    from attach_below(2) [OF ch, where inp = inp and q = q and nm = nm and us = us and ad = ad]
      nohit self tree reg show ?thesis
      by (auto simp: first_match_def attach_wing_segment_def could_not_attach_def
            split: option.splits sum.splits)
  qed
qed

lemma example_tree_built:
  "attach_wing_segment midpoint_quad (WingSegment origin_fields []) ''wing_right'' example_input
       ''right'' ''SI'' example_airfoils
     = Attached (WingSegment example_wing []) example_tree"
proof -
  have "parent_ID example_input = 0"
    by (simp add: parent_ID_def example_input_def get_or_def empty_connect_def)
  moreover have "attachment_point midpoint_quad example_input origin_fields = Inr (0, 0, 0)"
    by (simp add: attachment_point_def example_input_def get_or_def empty_connect_def
          get_tip_loc_def origin_fields_def bind_def)
  moreover have "ID origin_fields = Some 0"
    by (simp add: origin_fields_def)
  ultimately show ?thesis
    by (simp add: attach_wing_segment_def example_wing_built bind_def example_tree_def)
qed

lemma tail_wing_built:
  "WingSegment_init midpoint_quad ''tail_right'' tail_input ''right'' ''SI'' example_airfoils (0, 4, 0)
     = Inr (WingSegment tail_wing [])"
proof -
  have p: "initialize_params tail_input ''right'' = Inr (params_part example_body)"
    by (simp add: initialize_params_def tail_input_def example_input_def example_body_def get_or_def
        span_locs_uniform_2 bind_Inr empty_connect_def)
  show ?thesis
    unfolding WingSegment_init_def p
    by (simp add: eval_defs example_body_def tail_wing_def example_airfoils_def
          example_input_def tail_input_def numeral_2_eq_2 numeral_3_eq_3)
qed

text \<open>
  Claim C6 fails when the only segment with the declared ID is on the other side. After
  a right-hand segment with ID 1 has been attached to the root, a left-hand segment that
  connects to ID 1 cannot be attached: the search skips the child \<open>wing_right\<close>, whose
  key does not contain \<open>left\<close>, and the \<open>RuntimeError\<close> is raised although a segment of
  the tree has the ID.
\<close>

theorem attach_other_side_counterexample:
  "attach_wing_segment midpoint_quad (WingSegment origin_fields []) ''wing_right'' example_input
       ''right'' ''SI'' example_airfoils
     = Attached (WingSegment example_wing []) example_tree
   \<and> WingSegment example_wing [] \<in> set (all_segments example_tree)
   \<and> ID (fields (WingSegment example_wing [])) = Some (parent_ID tail_input)
   \<and> attach_wing_segment midpoint_quad example_tree ''tail_left'' tail_input ''left'' ''SI''
        example_airfoils
       = Raised could_not_attach"
proof -
  have "parent_ID tail_input = 1"
    by (simp add: parent_ID_def tail_input_def get_or_def empty_connect_def)
  moreover have "ID origin_fields = Some 0" "ID example_wing = Some 1"
    by (simp_all add: origin_fields_def example_wing_def)
  ultimately show ?thesis
    by (simp add: example_tree_built)
       (simp add: example_tree_def attach_wing_segment_def could_not_attach_def)
qed

lemma tail_attached:
  "attach_wing_segment midpoint_quad example_tree ''tail_right'' tail_input ''right'' ''SI''
       example_airfoils
     = Attached (WingSegment tail_wing [])
         (WingSegment origin_fields
            [(''wing_right'', WingSegment example_wing [(''tail_right'', WingSegment tail_wing [])])])"
proof -
  have "parent_ID tail_input = 1"
    by (simp add: parent_ID_def tail_input_def get_or_def empty_connect_def)
  moreover have "ID origin_fields = Some 0" "ID example_wing = Some 1"
    by (simp_all add: origin_fields_def example_wing_def)
  moreover have "attachment_point midpoint_quad tail_input example_wing = Inr (0, 4, 0)"
    by (simp add: attachment_point_def tail_input_def example_input_def get_or_def empty_connect_def
          get_tip_loc_def get_quarter_chord_loc_def ds_row_def example_wing_def example_body_def
          the_body_def bind_def integrand_def call_getter_float np_map_def as_float_def
          midpoint_quad_def times_b_def get_root_loc_def vadd_def)
  ultimately show ?thesis
    by (simp add: example_tree_def attach_wing_segment_def tail_wing_built bind_def)
qed

theorem attach_resolution_witness:
  "ID (fields example_tree) = Some 0
   \<and> list_all (\<lambda>s. ID (fields s) \<noteq> Some 0)
        (search_order_children ''right'' (attached_segments example_tree))
   \<and> first_match ''right'' (parent_ID tail_input) example_tree = Some (WingSegment example_wing [])
   \<and> construct_at midpoint_quad ''tail_right'' tail_input ''right'' ''SI'' example_airfoils
        (WingSegment example_wing []) = Inr (WingSegment tail_wing [])
   \<and> (\<exists>tree'. attach_wing_segment midpoint_quad example_tree ''tail_right'' tail_input ''right''
                  ''SI'' example_airfoils = Attached (WingSegment tail_wing []) tree'
          \<and> first_match ''right'' (parent_ID tail_input) tree'
              = Some (registered (WingSegment example_wing []) ''tail_right'' (WingSegment tail_wing []))
          \<and> map_of (attached_segments
                 (registered (WingSegment example_wing []) ''tail_right'' (WingSegment tail_wing [])))
               ''tail_right'' = Some (WingSegment tail_wing []))"
proof -
  have ids: "ID origin_fields = Some 0" "ID example_wing = Some 1"
    by (simp_all add: origin_fields_def example_wing_def)
  have pid: "parent_ID tail_input = 1"
    by (simp add: parent_ID_def tail_input_def get_or_def empty_connect_def)
  have h1: "ID (fields example_tree) = Some 0"
    by (simp add: example_tree_def ids)
  have so: "search_order_children ''right'' (attached_segments example_tree)
              = [WingSegment example_wing []]"
    by (simp add: example_tree_def)
  have h2: "\<forall>s\<in>set (search_order_children ''right'' (attached_segments example_tree)).
              ID (fields s) \<noteq> Some 0"
    unfolding so by (simp add: ids)
  have fm: "first_match ''right'' (parent_ID tail_input) example_tree = Some (WingSegment example_wing [])"
    unfolding pid by (simp add: first_match_def example_tree_def ids)
  have "attachment_point midpoint_quad tail_input example_wing = Inr (0, 4, 0)"
    by (simp add: attachment_point_def tail_input_def example_input_def get_or_def empty_connect_def
          get_tip_loc_def get_quarter_chord_loc_def ds_row_def example_wing_def example_body_def
          the_body_def bind_def integrand_def call_getter_float np_map_def as_float_def
          midpoint_quad_def times_b_def get_root_loc_def vadd_def)
  then have ca: "construct_at midpoint_quad ''tail_right'' tail_input ''right'' ''SI'' example_airfoils
        (WingSegment example_wing []) = Inr (WingSegment tail_wing [])"
    by (simp add: construct_at_def bind_def tail_wing_built)
  from attach_resolution [OF h1 h2, where inp = tail_input and q = midpoint_quad
         and nm = "''tail_right''" and us = "''SI''" and ad = example_airfoils]
  show ?thesis
    unfolding fm ca using h1 fm ca by (simp add: so ids)
qed

subsection \<open>Rounding to a double\<close>

lemma round_half_even_error:
  "\<bar>of_int (round_half_even x) - x\<bar> \<le> 1 / 2"
  unfolding round_half_even_def Let_def by (auto; linarith)

lemma round_half_even_of_int:
  "round_half_even (of_int n) = n"
  by (simp add: round_half_even_def)

lemma round_half_even_floor:
  "\<lfloor>x\<rfloor> \<le> round_half_even x" "round_half_even x \<le> \<lfloor>x\<rfloor> + 1"
  by (auto simp: round_half_even_def Let_def)

lemma round_half_even_mono:
  assumes "x \<le> y"
  shows "round_half_even x \<le> round_half_even y"
proof (cases "\<lfloor>x\<rfloor> = \<lfloor>y\<rfloor>")
  case True
  with assms show ?thesis
    by (auto simp: round_half_even_def Let_def)
next
  case False
  with assms have "\<lfloor>x\<rfloor> < \<lfloor>y\<rfloor>"
    using floor_mono [OF assms] by linarith
  with round_half_even_floor(2) [of x] round_half_even_floor(1) [of y] show ?thesis
    by linarith
qed

lemma floor_log_bounds:
  assumes "0 < x"
  shows "2 powr of_int \<lfloor>log 2 x\<rfloor> \<le> x" "x < 2 powr (of_int \<lfloor>log 2 x\<rfloor> + 1)"
proof -
  have "2 powr of_int \<lfloor>log 2 x\<rfloor> \<le> 2 powr log 2 x"
    by (intro powr_mono) simp_all
  with assms show "2 powr of_int \<lfloor>log 2 x\<rfloor> \<le> x"
    by simp
  have "2 powr log 2 x < 2 powr (of_int \<lfloor>log 2 x\<rfloor> + 1)"
    by (intro powr_less_mono) simp_all
  with assms show "x < 2 powr (of_int \<lfloor>log 2 x\<rfloor> + 1)"
    by simp
qed

lemma floor_log_unique:
  assumes "2 powr of_int n \<le> x" "x < 2 powr (of_int n + 1)"
  shows "\<lfloor>log 2 x\<rfloor> = n"
proof -
  have x: "0 < x"
    using assms(1) by (rule less_le_trans [rotated]) simp
  from assms(1) x have "of_int n \<le> log 2 x"
    by (simp add: le_log_iff)
  moreover from assms(2) x have "log 2 x < of_int n + 1"
    by (simp add: log_less_iff)
  ultimately show ?thesis
    by linarith
qed

text \<open>A positive real, its exponent \<open>n\<close> known.\<close>

lemma round_to_double_pos:
  assumes "2 powr of_int n \<le> x" "x < 2 powr (of_int n + 1)"
  shows "round_to_double x
           = of_int (round_half_even (x / 2 powr of_int (n - 52))) * 2 powr of_int (n - 52)"
proof -
  have x: "0 < x"
    using assms(1) by (rule less_le_trans [rotated]) simp
  from floor_log_unique [OF assms] x show ?thesis
    by (simp add: round_to_double_def)
qed

lemma round_to_double_range:
  assumes "2 powr of_int n \<le> x" "x < 2 powr (of_int n + 1)"
  shows "2 powr of_int n \<le> round_to_double x" "round_to_double x \<le> 2 powr (of_int n + 1)"
proof -
  let ?q = "2 powr of_int (n - 52) :: real"
  have q: "0 < ?q" by simp
  have lo: "2 powr of_int n = of_int (2 ^ 52) * ?q"
    by (simp add: powr_diff)
  have hi: "2 powr (of_int n + 1) = of_int (2 ^ 53) * ?q"
    by (simp add: powr_diff powr_add)
  from assms(1) have "of_int (2 ^ 52) \<le> x / ?q"
    unfolding lo using q by (simp add: pos_le_divide_eq)
  from round_half_even_mono [OF this]
  have a: "2 ^ 52 \<le> round_half_even (x / ?q)"
    unfolding round_half_even_of_int .
  from assms(2) have "x / ?q \<le> of_int (2 ^ 53)"
    unfolding hi using q by (simp add: pos_divide_le_eq)
  from round_half_even_mono [OF this]
  have b: "round_half_even (x / ?q) \<le> 2 ^ 53"
    unfolding round_half_even_of_int .
  from a have "(of_int (2 ^ 52) :: real) \<le> of_int (round_half_even (x / ?q))"
    by (simp only: of_int_le_iff)
  then have "of_int (2 ^ 52) * ?q \<le> of_int (round_half_even (x / ?q)) * ?q"
    by (rule mult_right_mono) simp
  then show "2 powr of_int n \<le> round_to_double x"
    unfolding round_to_double_pos [OF assms] lo .
  from b have "(of_int (round_half_even (x / ?q)) :: real) \<le> of_int (2 ^ 53)"
    by (simp only: of_int_le_iff)
  then have "of_int (round_half_even (x / ?q)) * ?q \<le> of_int (2 ^ 53) * ?q"
    by (rule mult_right_mono) simp
  then show "round_to_double x \<le> 2 powr (of_int n + 1)"
    unfolding round_to_double_pos [OF assms] hi .
qed

lemma round_to_double_pos_error:
  assumes "0 < x"
  shows "\<bar>round_to_double x - x\<bar> \<le> x / 2 ^ 53"
proof -
  define n where "n = \<lfloor>log 2 x\<rfloor>"
  let ?q = "2 powr of_int (n - 52) :: real"
  have q: "0 < ?q" by simp
  from floor_log_bounds [OF assms] have
    b: "2 powr of_int n \<le> x" "x < 2 powr (of_int n + 1)"
    by (simp_all add: n_def)
  have lo: "2 powr of_int n = 2 ^ 52 * ?q"
    by (simp add: powr_diff)
  have "round_to_double x - x = (of_int (round_half_even (x / ?q)) - x / ?q) * ?q"
    unfolding round_to_double_pos [OF b] by (simp add: algebra_simps)
  then have "\<bar>round_to_double x - x\<bar> = \<bar>of_int (round_half_even (x / ?q)) - x / ?q\<bar> * ?q"
    by (simp add: abs_mult)
  also have "\<dots> \<le> 1 / 2 * ?q"
    using round_half_even_error [of "x / ?q"] q by (intro mult_right_mono) simp_all
  also have "\<dots> = (2 ^ 52 * ?q) / 2 ^ 53"
    by simp
  also have "\<dots> \<le> x / 2 ^ 53"
    using b(1) unfolding lo by (intro divide_right_mono) simp_all
  finally show ?thesis .
qed

lemma round_to_double_minus:
  "round_to_double (- x) = - round_to_double x"
  by (simp add: round_to_double_def Let_def sgn_if)

lemma round_to_double_pos_pos:
  assumes "0 < x"
  shows "0 < round_to_double x"
proof -
  from floor_log_bounds [OF assms] have
    "2 powr of_int \<lfloor>log 2 x\<rfloor> \<le> x" "x < 2 powr (of_int \<lfloor>log 2 x\<rfloor> + 1)" .
  from round_to_double_range(1) [OF this] show ?thesis
    by (rule less_le_trans [rotated]) simp
qed

lemma round_to_double_pos_mono:
  assumes "0 < x" "x \<le> y"
  shows "round_to_double x \<le> round_to_double y"
proof -
  define n where "n = \<lfloor>log 2 x\<rfloor>"
  define m where "m = \<lfloor>log 2 y\<rfloor>"
  from assms have y: "0 < y" by simp
  from floor_log_bounds [OF assms(1)] have
    bx: "2 powr of_int n \<le> x" "x < 2 powr (of_int n + 1)"
    by (simp_all add: n_def)
  from floor_log_bounds [OF y] have
    by': "2 powr of_int m \<le> y" "y < 2 powr (of_int m + 1)"
    by (simp_all add: m_def)
  have nm: "n \<le> m"
    unfolding n_def m_def using assms by (intro floor_mono) simp
  show ?thesis
  proof (cases "n = m")
    case True
    let ?q = "2 powr of_int (n - 52) :: real"
    have "x / ?q \<le> y / ?q"
      using assms(2) by (intro divide_right_mono) simp_all
    from round_half_even_mono [OF this]
    have "of_int (round_half_even (x / ?q)) * ?q \<le> of_int (round_half_even (y / ?q)) * ?q"
      by (intro mult_right_mono) simp_all
    then show ?thesis
      using round_to_double_pos [OF bx] round_to_double_pos [OF by'] True by simp
  next
    case False
    with nm have "n + 1 \<le> m" by simp
    then have "(of_int n :: real) + 1 \<le> of_int m"
      by linarith
    then have "(2::real) powr (of_int n + 1) \<le> 2 powr of_int m"
      by (rule powr_mono) simp
    with round_to_double_range(2) [OF bx] round_to_double_range(1) [OF by'] show ?thesis
      by linarith
  qed
qed

lemma round_to_double_mono:
  assumes "x \<le> y"
  shows "round_to_double x \<le> round_to_double y"
proof -
  consider "0 < x" | "x \<le> 0" "0 < y" | "x < 0" "y = 0" | "x = 0" "y = 0" | "y < 0"
    using assms by linarith
  then show ?thesis
  proof cases
    case 1
    from round_to_double_pos_mono [OF this assms] show ?thesis .
  next
    case 2
    have "round_to_double x \<le> 0"
    proof (cases "x = 0")
      case True
      then show ?thesis by (simp add: round_to_double_def)
    next
      case False
      with 2 have "0 < - x" by simp
      from round_to_double_pos_pos [OF this] show ?thesis
        by (simp add: round_to_double_minus)
    qed
    with round_to_double_pos_pos [OF 2(2)] show ?thesis
      by linarith
  next
    case 3
    then have "0 < - x" by simp
    from round_to_double_pos_pos [OF this] 3 show ?thesis
      by (simp add: round_to_double_minus round_to_double_def)
  next
    case 4
    then show ?thesis by simp
  next
    case 5
    with assms have "0 < - y" "- y \<le> - x" by simp_all
    from round_to_double_pos_mono [OF this] show ?thesis
      by (simp add: round_to_double_minus)
  qed
qed

lemma round_to_double_error:
  "\<bar>round_to_double x - x\<bar> \<le> (1 / 2 ^ 53) * \<bar>x\<bar>"
proof -
  consider "0 < x" | "x = 0" | "x < 0" by linarith
  then show ?thesis
  proof cases
    case 1
    from round_to_double_pos_error [OF this] 1 show ?thesis by simp
  next
    case 2
    then show ?thesis by (simp add: round_to_double_def)
  next
    case 3
    then have "0 < - x" by simp
    from round_to_double_pos_error [OF this] 3 show ?thesis
      by (simp add: round_to_double_minus)
  qed
qed

text \<open>Evaluation: a positive real below \<open>2^53\<close>, scaled by \<open>2^k\<close> into \<open>[2^52, 2^53)\<close>.\<close>

lemma round_to_double_scaled:
  fixes k :: nat
  assumes "2 ^ 52 \<le> x * 2 ^ k" "x * 2 ^ k < 2 ^ 53"
  shows "round_to_double x = of_int (round_half_even (x * 2 ^ k)) / 2 ^ k"
proof -
  have p: "(2::real) powr of_int (52 - int k) = 2 ^ 52 / 2 ^ k"
    by (simp add: powr_diff powr_realpow)
  have p1: "(2::real) powr (of_int (52 - int k) + 1) = 2 ^ 53 / 2 ^ k"
    by (simp add: powr_diff powr_add powr_realpow)
  have q: "(2::real) powr of_int (52 - int k - 52) = 1 / 2 ^ k"
    by (simp add: powr_minus powr_realpow inverse_eq_divide)
  from assms have "2 powr of_int (52 - int k) \<le> x" "x < 2 powr (of_int (52 - int k) + 1)"
    unfolding p p1 by (simp_all add: pos_divide_le_eq pos_less_divide_eq)
  from round_to_double_pos [OF this] show ?thesis
    unfolding q by simp
qed

lemma round_to_double_one:
  "round_to_double 1 = 1"
  using round_to_double_scaled [of 1 52] round_half_even_of_int [of "2 ^ 52"]
  by simp

lemma rounding_round_to_double:
  "rounding (1 / 2 ^ 53) round_to_double"
  using round_to_double_error round_to_double_mono round_to_double_one
  by (simp add: rounding_def)

subsection \<open>Coefficient queries\<close>

lemma new_params_row_count:
  assumes "body self = Some bd"
  shows "length prm \<noteq> seg_N (params_part bd) \<Longrightarrow> new_params for_Cm self prm = Inl row_count_error"
    and "length prm = seg_N (params_part bd) \<Longrightarrow> new_params for_Cm self prm \<noteq> Inl row_count_error"
  using assms
  by (auto simp: new_params_def the_body_def bind_def Let_def row_count_error_def first_three_def
        column_def split: sum.splits option.splits pyval.splits if_splits)

lemma airfoil_interpolator_errors:
  "airfoil_interpolator fl xs ss coefs \<noteq> Inl row_count_error"
  by (auto simp: airfoil_interpolator_def Let_def row_count_error_def)

lemma cp_query_row_count:
  assumes "body self = Some bd"
  shows "length prm \<noteq> seg_N (params_part bd) \<Longrightarrow> cp_query fl m for_Cm self prm = Inl row_count_error"
    and "length prm = seg_N (params_part bd) \<Longrightarrow> cp_query fl m for_Cm self prm \<noteq> Inl row_count_error"
proof -
  show "length prm \<noteq> seg_N (params_part bd) \<Longrightarrow> cp_query fl m for_Cm self prm = Inl row_count_error"
    using new_params_row_count(1) [OF assms] by (simp add: cp_query_def bind_def)
next
  assume "length prm = seg_N (params_part bd)"
  from new_params_row_count(2) [OF assms this]
  have n: "new_params for_Cm self prm \<noteq> Inl row_count_error" .
  show "cp_query fl m for_Cm self prm \<noteq> Inl row_count_error"
  proof (cases "new_params for_Cm self prm")
    case (Inl e)
    with n show ?thesis by (auto simp: cp_query_def bind_def)
  next
    case (Inr np)
    then show ?thesis
      using assms airfoil_interpolator_errors
      by (auto simp: cp_query_def bind_def the_body_def Let_def row_count_error_def)
  qed
qed

text \<open>
  Claim C5. On a segment with its attributes, each of the seven coefficient queries
  called with a parameter matrix whose row count is not \<open>self._N\<close> raises the
  \<open>ValueError\<close> of the row-count check, and called with a matrix of \<open>self._N\<close> rows does
  not raise it (it may raise another exception, for rows that cannot be broadcast to
  three columns, say). The queries assign no attribute of the segment, so they are
  functions of the segment that return a value or an exception and nothing else:
  there is no partial result and no change of state to return. The rounding of the
  arithmetic plays no part.
\<close>

theorem coefficient_query_row_count:
  assumes "body self = Some bd"
  shows "(length prm \<noteq> seg_N (params_part bd) \<longrightarrow>
            get_cp_CL fl self prm = Inl row_count_error \<and> get_cp_CLa fl self prm = Inl row_count_error
            \<and> get_cp_aL0 fl self prm = Inl row_count_error \<and> get_cp_CD fl self prm = Inl row_count_error
            \<and> get_cp_Cm fl self prm = Inl row_count_error \<and> get_cp_CLRe fl self prm = Inl row_count_error
            \<and> get_cp_CLM fl self prm = Inl row_count_error)
         \<and> (length prm = seg_N (params_part bd) \<longrightarrow>
            get_cp_CL fl self prm \<noteq> Inl row_count_error \<and> get_cp_CLa fl self prm \<noteq> Inl row_count_error
            \<and> get_cp_aL0 fl self prm \<noteq> Inl row_count_error \<and> get_cp_CD fl self prm \<noteq> Inl row_count_error
            \<and> get_cp_Cm fl self prm \<noteq> Inl row_count_error \<and> get_cp_CLRe fl self prm \<noteq> Inl row_count_error
            \<and> get_cp_CLM fl self prm \<noteq> Inl row_count_error)"
  using cp_query_row_count [OF assms]
  by (simp add: get_cp_CL_def get_cp_CLa_def get_cp_aL0_def get_cp_CD_def get_cp_Cm_def
        get_cp_CLRe_def get_cp_CLM_def)

theorem coefficient_query_row_count_witness:
  "body example_wing = Some example_body
   \<and> length [[0, 0, 0 :: real]] \<noteq> seg_N (params_part example_body)
   \<and> get_cp_CL (\<lambda>x. x) example_wing [[0, 0, 0]] = Inl row_count_error
   \<and> get_cp_Cm (\<lambda>x. x) example_wing [[0, 0, 0]] = Inl row_count_error
   \<and> length [[1, 0, 0 :: real], [2, 0, 0]] = seg_N (params_part example_body)
   \<and> get_cp_CL (\<lambda>x. x) example_wing [[1, 0, 0], [2, 0, 0]] \<noteq> Inl row_count_error
   \<and> get_cp_Cm (\<lambda>x. x) example_wing [[1, 0, 0], [2, 0, 0]] \<noteq> Inl row_count_error"
proof -
  have b: "body example_wing = Some example_body"
    by (simp add: example_wing_def)
  have n: "seg_N (params_part example_body) = 2"
    by (simp add: example_body_def)
  from coefficient_query_row_count [OF b, of "[[0, 0, 0]]" "\<lambda>x. x"]
       coefficient_query_row_count [OF b, of "[[1, 0, 0], [2, 0, 0]]" "\<lambda>x. x"] b
  show ?thesis
    unfolding n by simp
qed

lemma searchsorted_unit:
  assumes "0 \<le> x" "x \<le> 1"
  shows "searchsorted [0, 1] x - 1 = 0"
  using assms by (simp add: searchsorted_def)

text \<open>
  With the sample spans \<open>[0, 1]\<close> and span fractions in \<open>[0, 1]\<close> the index \<open>j\<close> is 0
  everywhere.
\<close>

lemma airfoil_interpolator_unit:
  assumes "fl (1 - 0) \<noteq> 0" and "in_unit xs" and "length cs = length xs"
  shows "airfoil_interpolator fl xs [0, 1] (map (\<lambda>c. [c, c]) cs)
           = Inr (map (\<lambda>(x, c). fl (fl (fl (1 - fl (fl (x - 0) / fl (1 - 0))) * c)
                                       + fl (fl (fl (x - 0) / fl (1 - 0)) * c)))
                   (zip xs cs))"
proof -
  have js: "map (\<lambda>x. searchsorted [0, 1] x - 1) xs = map (\<lambda>x. 0) xs"
  proof (rule map_cong [OF refl])
    fix x assume "x \<in> set xs"
    with assms(2) have "0 \<le> x" "x \<le> 1"
      by (auto simp: in_unit_def list_all_iff)
    then show "searchsorted [0, 1] x - 1 = 0"
      by (rule searchsorted_unit)
  qed
  let ?rows = "zip [0..<length xs] (zip xs (map (\<lambda>x. 0 :: nat) xs))"
  let ?coefs = "map (\<lambda>c. [c, c]) cs"
  let ?g = "\<lambda>(i, x, j).
              let d = fl (fl (x - [0, 1] ! j) / fl ([0, 1] ! (j + 1) - [0, 1] ! j))
              in fl (fl (fl (1 - d) * ?coefs ! i ! j) + fl (d * ?coefs ! i ! (j + 1)))"
  let ?h = "\<lambda>(x, c). fl (fl (fl (1 - fl (fl (x - 0) / fl (1 - 0))) * c)
                         + fl (fl (fl (x - 0) / fl (1 - 0)) * c))"
  have in_rows: "i < length xs \<and> j = 0" if "(i, x, j) \<in> set ?rows" for i x j
    using that by (auto simp: set_zip)
  have c1: "\<not> (\<exists>j\<in>set (map (\<lambda>x. 0 :: nat) xs). \<not> j + 1 < length [0 :: real, 1])"
    by auto
  have c2: "\<not> (\<exists>(i, x, j)\<in>set ?rows. \<not> (i < length ?coefs \<and> j + 1 < length (?coefs ! i)))"
    using in_rows assms(3) by auto
  have c3: "\<not> (\<exists>j\<in>set (map (\<lambda>x. 0 :: nat) xs). fl ([0 :: real, 1] ! (j + 1) - [0, 1] ! j) = 0)"
    using assms(1) by auto
  have r: "airfoil_interpolator fl xs [0, 1] ?coefs = Inr (map ?g ?rows)"
    unfolding airfoil_interpolator_def Let_def js
    using c1 c2 c3 by simp
  have "map ?g ?rows = map ?h (zip xs cs)"
  proof (rule nth_equalityI)
    show "length (map ?g ?rows) = length (map ?h (zip xs cs))"
      using assms(3) by simp
  next
    fix i assume "i < length (map ?g ?rows)"
    then have i: "i < length xs" by simp
    then have row: "?rows ! i = (i, xs ! i, 0)" by simp
    have "map ?g ?rows ! i = ?g (?rows ! i)"
      using i by (intro nth_map) simp
    also have "\<dots> = ?h (xs ! i, cs ! i)"
      unfolding row using i assms(3) by (simp add: Let_def)
    also have "\<dots> = map ?h (zip xs cs) ! i"
      using i assms(3) by simp
    finally show "map ?g ?rows ! i = map ?h (zip xs cs) ! i" .
  qed
  with r show ?thesis
    by simp
qed

text \<open>
  The blend of a value with itself, in rounded arithmetic, at a span fraction of
  \<open>[0, 1]\<close> between the sample spans 0 and 1.
\<close>

lemma blend_near:
  assumes "rounding u fl" and "0 \<le> x" and "x \<le> 1"
  defines "d \<equiv> fl (fl (x - 0) / fl (1 - 0))"
  shows "\<bar>fl (fl (fl (1 - d) * c) + fl (d * c)) - c\<bar> \<le> ((1 + u) ^ 3 - 1) * \<bar>c\<bar>"
proof -
  from assms(1) have u: "0 \<le> u" and err: "\<And>y. \<bar>fl y - y\<bar> \<le> u * \<bar>y\<bar>"
    and mono: "\<And>a b. a \<le> b \<Longrightarrow> fl a \<le> fl b" and one: "fl 1 = 1"
    by (auto simp: rounding_def)
  have zero: "fl 0 = 0"
    using err [of 0] by simp
  have fx: "0 \<le> fl x" "fl x \<le> 1"
    using mono [OF assms(2)] mono [OF assms(3)] zero one by simp_all
  have d_eq: "d = fl (fl x)"
    by (simp add: d_def one)
  have d: "0 \<le> d" "d \<le> 1"
    using mono [OF fx(1)] mono [OF fx(2)] zero one by (simp_all add: d_eq)
  define a where "a = fl (1 - d)"
  define p1 where "p1 = fl (a * c)"
  define p2 where "p2 = fl (d * c)"
  define s where "s = p1 + p2"
  define k where "k = \<bar>c\<bar>"
  have k: "0 \<le> k" by (simp add: k_def)
  have a1: "\<bar>a - (1 - d)\<bar> \<le> u * (1 - d)"
    using err [of "1 - d"] d by (simp add: a_def)
  have a2: "\<bar>a\<bar> \<le> (1 + u) * (1 - d)"
  proof -
    have "\<bar>a\<bar> \<le> \<bar>a - (1 - d)\<bar> + \<bar>1 - d\<bar>" by simp
    also have "\<dots> \<le> u * (1 - d) + (1 - d)" using a1 d by simp
    finally show ?thesis by (simp add: algebra_simps)
  qed
  have p1a: "\<bar>p1 - a * c\<bar> \<le> u * (\<bar>a\<bar> * k)"
    using err [of "a * c"] by (simp add: p1_def k_def abs_mult)
  have "u * (\<bar>a\<bar> * k) \<le> u * (((1 + u) * (1 - d)) * k)"
    using a2 u k by (intro mult_left_mono mult_right_mono) simp_all
  with p1a have p1b: "\<bar>p1 - a * c\<bar> \<le> u * (1 + u) * (1 - d) * k"
    by (simp add: mult.assoc)
  have "\<bar>(a - (1 - d)) * c\<bar> \<le> (u * (1 - d)) * k"
    unfolding abs_mult k_def using a1 by (intro mult_right_mono) simp_all
  then have ac: "\<bar>a * c - (1 - d) * c\<bar> \<le> u * (1 - d) * k"
    by (simp add: algebra_simps)
  have "\<bar>p1 - (1 - d) * c\<bar> \<le> \<bar>p1 - a * c\<bar> + \<bar>a * c - (1 - d) * c\<bar>"
    by simp
  with p1b ac have p1c: "\<bar>p1 - (1 - d) * c\<bar> \<le> (1 - d) * k * (2 * u + u * u)"
    by (simp add: algebra_simps)
  have p2a: "\<bar>p2 - d * c\<bar> \<le> u * (d * k)"
    using err [of "d * c"] d by (simp add: p2_def k_def abs_mult)
  have "u * (d * k) \<le> d * k * (2 * u + u * u)"
  proof -
    have "0 \<le> d * k * (u + u * u)" using d k u by simp
    then show ?thesis by (simp add: algebra_simps)
  qed
  with p2a have p2b: "\<bar>p2 - d * c\<bar> \<le> d * k * (2 * u + u * u)"
    by simp
  have "s - c = (p1 - (1 - d) * c) + (p2 - d * c)"
    by (simp add: s_def algebra_simps)
  then have "\<bar>s - c\<bar> \<le> \<bar>p1 - (1 - d) * c\<bar> + \<bar>p2 - d * c\<bar>"
    by simp
  with p1c p2b have "\<bar>s - c\<bar> \<le> (1 - d) * k * (2 * u + u * u) + d * k * (2 * u + u * u)"
    by simp
  then have s1: "\<bar>s - c\<bar> \<le> k * (2 * u + u * u)"
    by (simp add: algebra_simps)
  have "\<bar>s\<bar> \<le> \<bar>s - c\<bar> + \<bar>c\<bar>" by simp
  with s1 have s2: "\<bar>s\<bar> \<le> k * (1 + 2 * u + u * u)"
    by (simp add: k_def algebra_simps)
  have "\<bar>fl s - s\<bar> \<le> u * \<bar>s\<bar>"
    by (rule err)
  also have "\<dots> \<le> u * (k * (1 + 2 * u + u * u))"
    using s2 u by (rule mult_left_mono)
  finally have r: "\<bar>fl s - s\<bar> \<le> u * (k * (1 + 2 * u + u * u))" .
  have "\<bar>fl s - c\<bar> \<le> \<bar>fl s - s\<bar> + \<bar>s - c\<bar>" by simp
  with r s1 have "\<bar>fl s - c\<bar> \<le> u * (k * (1 + 2 * u + u * u)) + k * (2 * u + u * u)"
    by simp
  also have "\<dots> = ((1 + u) ^ 3 - 1) * k"
    by (simp add: power3_eq_cube algebra_simps)
  finally show ?thesis
    by (simp add: s_def p1_def p2_def a_def k_def)
qed


lemma airfoil_interpolator_constant:
  assumes "rounding u fl" and "in_unit xs" and "length rs = length xs"
  shows "returns_near u (airfoil_interpolator fl xs [0, 1] (map (\<lambda>r. [f r, f r]) rs)) (map f rs)"
proof -
  let ?h = "\<lambda>(x, c). fl (fl (fl (1 - fl (fl (x - 0) / fl (1 - 0))) * c)
                         + fl (fl (fl (x - 0) / fl (1 - 0)) * c))"
  from assms(1) have "fl (1 - 0) \<noteq> 0"
    by (simp add: rounding_def)
  from airfoil_interpolator_unit [where fl = fl and xs = xs and cs = "map f rs", OF this assms(2)]
    assms(3)
  have r: "airfoil_interpolator fl xs [0, 1] (map (\<lambda>r. [f r, f r]) rs)
             = Inr (map ?h (zip xs (map f rs)))"
    by (simp add: comp_def)
  have "list_all2 (\<lambda>y c. \<bar>y - c\<bar> \<le> ((1 + u) ^ 3 - 1) * \<bar>c\<bar>) (map ?h (zip xs (map f rs))) (map f rs)"
  proof (rule list_all2_all_nthI)
    show "length (map ?h (zip xs (map f rs))) = length (map f rs)"
      using assms(3) by simp
  next
    fix i assume "i < length (map ?h (zip xs (map f rs)))"
    then have i: "i < length xs" by simp
    from i assms(2) have x: "0 \<le> xs ! i" "xs ! i \<le> 1"
      by (auto simp: in_unit_def list_all_length)
    have "map ?h (zip xs (map f rs)) ! i
            = fl (fl (fl (1 - fl (fl (xs ! i - 0) / fl (1 - 0))) * f (rs ! i))
                   + fl (fl (fl (xs ! i - 0) / fl (1 - 0)) * f (rs ! i)))"
      using i assms(3) by simp
    moreover have "map f rs ! i = f (rs ! i)"
      using i assms(3) by simp
    ultimately show "\<bar>map ?h (zip xs (map f rs)) ! i - map f rs ! i\<bar>
                       \<le> ((1 + u) ^ 3 - 1) * \<bar>map f rs ! i\<bar>"
      using blend_near [OF assms(1) x, of "f (rs ! i)"] by simp
  qed
  with r show ?thesis
    by (simp add: returns_near_def)
qed

lemma new_params_length:
  assumes "body self = Some bd" "new_params for_Cm self prm = Inr np"
  shows "length np = seg_N (params_part bd)"
  using assms
  by (auto simp: new_params_def the_body_def bind_eq_Inr Let_def first_three_def column_def
           split: if_splits pyval.splits option.splits)

lemma new_params_accepts:
  assumes "accepts for_Cm self prm"
  shows "\<exists>rows. new_params for_Cm self prm = Inr rows"
  using assms
  by (auto simp: accepts_def new_params_def the_body_def bind_def Let_def first_three_def
        column_def has_control_surface_def split: option.splits pyval.splits if_splits)

lemma cp_query_constant:
  assumes "constant_airfoil self af" and "rounding u fl" and "new_params for_Cm self prm = Inr np"
  shows "returns_near u (cp_query fl m for_Cm self prm) (map (m af) np)"
proof -
  from assms(1) obtain bd where
    bd: "body self = Some bd" and
    a: "airfoils_part bd = \<lparr>airfoils = [af, af], airfoil_spans = [0, 1], num_airfoils = 2\<rparr>" and
    un: "in_unit (cp_span_locs (params_part bd))" and
    l: "length (cp_span_locs (params_part bd)) = seg_N (params_part bd)"
    by (auto simp: constant_airfoil_def split: option.splits)
  from new_params_length [OF bd assms(3)] l
  have len: "length np = length (cp_span_locs (params_part bd))" by simp
  have "map (\<lambda>row. map (\<lambda>af. m af row) (take 2 [af, af])) np = map (\<lambda>r. [m af r, m af r]) np"
    by (simp add: numeral_2_eq_2)
  with airfoil_interpolator_constant [OF assms(2) un len, of "m af"] assms(3) bd a
  show ?thesis
    by (simp add: cp_query_def bind_def the_body_def Let_def)
qed

lemma cp_query_raises:
  assumes "new_params for_Cm self prm = Inl e"
  shows "cp_query fl m for_Cm self prm = Inl e"
  using assms by (simp add: cp_query_def bind_def)

lemma rounding_exact:
  "rounding 0 (\<lambda>x. x)"
  by (simp add: rounding_def)

lemma returns_near_exact:
  "returns_near 0 r cs \<longleftrightarrow> r = Inr cs"
  by (cases r) (auto simp: returns_near_def list_all2_eq [symmetric])

lemma initialize_params_control_points:
  assumes "initialize_params inp sd = Inr p"
  shows "in_unit (cp_span_locs p) \<and> length (cp_span_locs p) = seg_N p"
proof -
  let ?n = "get_or (in_grid inp) 40" and ?c = "get_or (in_use_clustering inp) True"
  from assms obtain nodes cps where
    s: "span_locs ?c ?n = Inr (nodes, cps)" and
    p: "cp_span_locs p = (if sd = ''left'' then rev cps else cps)" "seg_N p = ?n"
    by (auto simp: initialize_params_def Let_def bind_eq_Inr)
  have "0 < ?n"
  proof (rule ccontr)
    assume "\<not> 0 < ?n"
    then have "span_locs ?c ?n = Inl ZeroDivisionError"
      by (simp add: span_locs_def Let_def)
    with s show False by simp
  qed
  from span_locs_ok [OF this, of ?c] s have "in_unit cps" "length cps = ?n"
    by auto
  with p show ?thesis
    by (auto simp: in_unit_def list_all_iff)
qed

lemma constant_airfoil_built:
  assumes "WingSegment_init q nm inp sd us ad orig = Inr seg" and "in_ID inp \<noteq> Some 0"
    and "in_airfoil inp = Some (AirfoilName a) \<or> (in_airfoil inp = None \<and> ad \<noteq> [] \<and> fst (hd ad) = a)"
    and "map_of ad a = Some af"
  shows "constant_airfoil (fields seg) af"
proof -
  from WingSegment_init_body [OF assms(1,2)] obtain bd where
    bd: "body (fields seg) = Some bd" and
    p: "initialize_params inp sd = Inr (params_part bd)" and
    a: "initialize_airfoils inp ad = Inr (airfoils_part bd)"
    by auto
  from a assms(3,4)
  have "airfoils_part bd = \<lparr>airfoils = [af, af], airfoil_spans = [0, 1], num_airfoils = 2\<rparr>"
    by (cases ad) (auto simp: initialize_airfoils_def get_or_def split: if_splits)
  with bd initialize_params_control_points [OF p] show ?thesis
    by (simp add: constant_airfoil_def)
qed

lemma constant_airfoil_apply_control:
  assumes "constant_airfoil self af"
  shows "constant_airfoil (fst (apply_control self control_state control_symmetry)) af"
proof -
  from assms obtain bd where bd: "body self = Some bd"
    by (auto simp: constant_airfoil_def split: option.splits)
  show ?thesis
  proof (cases "control (flap_part bd)")
    case None
    with bd assms show ?thesis by (simp add: apply_control_def)
  next
    case (Some cs)
    obtain d err where
      "control_loop (side self) (control_mixing cs) control_symmetry control_state 0 = (d, err)"
      by (cases "control_loop (side self) (control_mixing cs) control_symmetry control_state 0")
    with bd Some assms show ?thesis
      by (cases err) (simp_all add: apply_control_def Let_def constant_airfoil_def)
  qed
qed


text \<open>
  Which matrices a segment accepts. A segment \<open>__init__\<close> has built accepts in
  \<open>get_cp_Cm\<close> every matrix of \<open>N\<close> rows of three entries, and in the other six queries
  too when it has no control surface; with a control surface it accepts them in the
  other six after an \<open>apply_control\<close> that returned.
\<close>

lemma flap_chord_frac_length:
  assumes "flap_chord_frac cd r t cps = Inr fr"
  shows "length fr = length cps"
  using assms by (auto simp: flap_chord_frac_def split: span_data.splits list.splits)

lemma setup_control_surface_lengths:
  assumes "setup_control_surface cdo p = Inr fs"
  shows "case control fs of
           None \<Rightarrow> True
         | Some cs \<Rightarrow> length (eta_h_esp_f cs) = seg_N p
                      \<and> (\<exists>c. Cm_delta_flap fs = NdArray c \<and> length c = seg_N p)"
proof (cases cdo)
  case None
  with assms show ?thesis by (auto simp: setup_control_surface_def)
next
  case (Some cd)
  with assms obtain fr where
    "flap_chord_frac (get_or (cs_chord_fraction cd) (Constant 0.25))
       (get_or (cs_root_span cd) 0) (get_or (cs_tip_span cd) 1) (cp_span_locs p) = Inr fr"
    and "length (cp_span_locs p) = seg_N p"
    and "fs = \<lparr>delta_flap = 0,
               Cm_delta_flap =
                 NdArray (map (\<lambda>t. (sin (2 * t) - 2 * sin t) / 4) (map (\<lambda>c. arccos (2 * c - 1)) fr)),
               control =
                 Some \<lparr>cp_flap_chord_frac = fr,
                       control_mixing = get_or (cs_control_mixing cd) Map.empty,
                       cp_in_control_surface =
                         map (\<lambda>s. get_or (cs_root_span cd) 0 \<le> s \<and> s \<le> get_or (cs_tip_span cd) 1)
                           (cp_span_locs p),
                       eta_h_esp_f =
                         map (\<lambda>(e, h). e * h)
                           (zip (map (\<lambda>t. 1 - (t - sin t) / pi) (map (\<lambda>c. arccos (2 * c - 1)) fr))
                                (map (\<lambda>c. if get_or (cs_is_sealed cd) True then hinge_eff c
                                           else hinge_eff c * 0.8) fr))\<rparr>,
               eta_defl = None, flap_eff = None\<rparr>"
    by (auto simp: setup_control_surface_def Let_def bind_eq_Inr split: if_splits)
  with flap_chord_frac_length [OF this(1)] show ?thesis
    by simp
qed

lemma accepts_built:
  assumes "WingSegment_init q nm inp sd us ad orig = Inr seg" and "in_ID inp \<noteq> Some 0"
    and "body (fields seg) = Some bd"
    and "length prm = seg_N (params_part bd)" and "list_all (\<lambda>r. length r = 3) prm"
  shows "accepts True (fields seg) prm"
    and "control (flap_part bd) = None \<Longrightarrow> accepts False (fields seg) prm"
proof -
  from WingSegment_init_body [OF assms(1,2)] assms(3)
  have "setup_control_surface (in_control_surface inp) (params_part bd) = Inr (flap_part bd)"
    by auto
  from setup_control_surface_lengths [OF this] assms(3,4,5)
  show "accepts True (fields seg) prm"
    by (auto simp: accepts_def split: option.splits)
  show "control (flap_part bd) = None \<Longrightarrow> accepts False (fields seg) prm"
    using assms(3,4,5) by (simp add: accepts_def)
qed

lemma accepts_apply_control:
  assumes "WingSegment_init q nm inp sd us ad orig = Inr seg" and "in_ID inp \<noteq> Some 0"
    and "body (fields seg) = Some bd"
    and "snd (apply_control (fields seg) control_state control_symmetry) = None"
    and "length prm = seg_N (params_part bd)" and "list_all (\<lambda>r. length r = 3) prm"
  shows "accepts False (fst (apply_control (fields seg) control_state control_symmetry)) prm"
    and "accepts True (fst (apply_control (fields seg) control_state control_symmetry)) prm"
proof -
  from WingSegment_init_body [OF assms(1,2)] assms(3)
  have "setup_control_surface (in_control_surface inp) (params_part bd) = Inr (flap_part bd)"
    by auto
  note l = setup_control_surface_lengths [OF this]
  show "accepts False (fst (apply_control (fields seg) control_state control_symmetry)) prm"
  proof (cases "control (flap_part bd)")
    case None
    with assms(3,5,6) show ?thesis
      by (simp add: apply_control_def accepts_def)
  next
    case (Some cs)
    obtain d err where
      c: "control_loop (side (fields seg)) (control_mixing cs) control_symmetry control_state 0 = (d, err)"
      by (cases "control_loop (side (fields seg)) (control_mixing cs) control_symmetry control_state 0")
    with assms(3,4) Some have "err = None"
      by (cases err) (simp_all add: apply_control_def)
    with c l assms(3,5,6) Some show ?thesis
      by (simp add: apply_control_def accepts_def Let_def)
  qed
  show "accepts True (fst (apply_control (fields seg) control_state control_symmetry)) prm"
  proof (cases "control (flap_part bd)")
    case None
    with assms(3,5,6) show ?thesis
      by (simp add: apply_control_def accepts_def)
  next
    case (Some cs)
    obtain d err where
      c: "control_loop (side (fields seg)) (control_mixing cs) control_symmetry control_state 0 = (d, err)"
      by (cases "control_loop (side (fields seg)) (control_mixing cs) control_symmetry control_state 0")
    with l assms(3,5,6) Some show ?thesis
      by (cases err) (auto simp: apply_control_def accepts_def Let_def)
  qed
qed

lemma flap_wing_constant_airfoil:
  "constant_airfoil flap_wing example_airfoil"
proof -
  have "map_of example_airfoils ''NACA_0010'' = Some example_airfoil"
    by (simp add: example_airfoils_def)
  moreover have "in_ID flap_input \<noteq> Some 0"
    and "in_airfoil flap_input = None \<and> example_airfoils \<noteq> []
           \<and> fst (hd example_airfoils) = ''NACA_0010''"
    by (simp_all add: flap_input_def example_input_def example_airfoils_def)
  ultimately have "constant_airfoil (fields (WingSegment flap_wing [])) example_airfoil"
    using constant_airfoil_built [OF flap_wing_built] by blast
  then show ?thesis
    by simp
qed

lemma flap_wing_elevator_new_params:
  "new_params False (fst (apply_control flap_wing [(''elevator'', 5)] Map.empty)) [[1, 0, 0], [2, 0, 0]]
     = Inr [[1, 0, 0, example_eta, radians 5], [2, 0, 0, example_eta, radians 5]]"
  unfolding flap_wing_elevator
  by (simp add: new_params_def flap_wing_def flap_body_def example_body_def
        example_wing_def the_body_def bind_def first_three_def has_control_surface_def column_def
        deflection_efficiency_def example_control_def)

text \<open>
  In doubles the blend of a value with itself is not always that value. The uniform grid
  of four control points and the double nearest to 0.11, \<open>7926335344172073 / 2^56\<close>: at
  the span fractions \<open>3/8\<close> and \<open>5/8\<close> the two products round up and their sum is a tie
  that rounds to the even neighbour, one unit in the last place above.
\<close>

lemma span_locs_uniform_4:
  "span_locs False 4 = Inr ([0, 1 / 4, 1 / 2, 3 / 4, 1], [1 / 8, 3 / 8, 5 / 8, 7 / 8])"
  by (simp add: span_locs_def linspace_def Let_def numeral_eq_Suc upt_rec)

lemma round_to_double_eighths:
  "round_to_double (1 / 8) = 1 / 8" "round_to_double (3 / 8) = 3 / 8"
  "round_to_double (5 / 8) = 5 / 8" "round_to_double (7 / 8) = 7 / 8"
  using round_to_double_scaled [of "1 / 8" 55] round_to_double_scaled [of "3 / 8" 54]
    round_to_double_scaled [of "5 / 8" 53] round_to_double_scaled [of "7 / 8" 53]
  by (simp_all add: round_half_even_def)

lemma round_to_double_0_11:
  "round_to_double (11 / 100) = 7926335344172073 / 2 ^ 56"
  using round_to_double_scaled [of "11 / 100" 56]
  by (simp add: round_half_even_def)

lemma round_to_double_products:
  "round_to_double (1 / 8 * (7926335344172073 / 2 ^ 56)) = 7926335344172073 / 2 ^ 59"
  "round_to_double (3 / 8 * (7926335344172073 / 2 ^ 56)) = 5944751508129055 / 2 ^ 57"
  "round_to_double (5 / 8 * (7926335344172073 / 2 ^ 56)) = 2476979795053773 / 2 ^ 55"
  "round_to_double (7 / 8 * (7926335344172073 / 2 ^ 56)) = 1733885856537641 / 2 ^ 54"
  using round_to_double_scaled [of "1 / 8 * (7926335344172073 / 2 ^ 56)" 59]
    round_to_double_scaled [of "3 / 8 * (7926335344172073 / 2 ^ 56)" 57]
    round_to_double_scaled [of "5 / 8 * (7926335344172073 / 2 ^ 56)" 56]
    round_to_double_scaled [of "7 / 8 * (7926335344172073 / 2 ^ 56)" 56]
  by (simp_all add: round_half_even_def)

lemma round_to_double_sums:
  "round_to_double (1733885856537641 / 2 ^ 54 + 7926335344172073 / 2 ^ 59)
     = 7926335344172073 / 2 ^ 56"
  "round_to_double (2476979795053773 / 2 ^ 55 + 5944751508129055 / 2 ^ 57)
     = 3963167672086037 / 2 ^ 55"
  using round_to_double_scaled [of "1733885856537641 / 2 ^ 54 + 7926335344172073 / 2 ^ 59" 56]
    round_to_double_scaled [of "2476979795053773 / 2 ^ 55 + 5944751508129055 / 2 ^ 57" 56]
  by (simp_all add: round_half_even_def)

lemma airfoil_interpolator_double_inexact:
  "airfoil_interpolator round_to_double [1 / 8, 3 / 8, 5 / 8, 7 / 8] [0, 1]
     (replicate 4 [7926335344172073 / 2 ^ 56, 7926335344172073 / 2 ^ 56])
     = Inr [7926335344172073 / 2 ^ 56, 7926335344172073 / 2 ^ 56 + 1 / 2 ^ 56,
            7926335344172073 / 2 ^ 56 + 1 / 2 ^ 56, 7926335344172073 / 2 ^ 56]"
proof -
  have g: "airfoil_interpolator round_to_double [x0, x1, x2, x3] [0, 1] (replicate 4 [c, c])
        = Inr [round_to_double (round_to_double (round_to_double (1 - round_to_double
                 (round_to_double (x0 - 0) / round_to_double (1 - 0))) * c)
                + round_to_double (round_to_double (round_to_double (x0 - 0)
                    / round_to_double (1 - 0)) * c)),
               round_to_double (round_to_double (round_to_double (1 - round_to_double
                 (round_to_double (x1 - 0) / round_to_double (1 - 0))) * c)
                + round_to_double (round_to_double (round_to_double (x1 - 0)
                    / round_to_double (1 - 0)) * c)),
               round_to_double (round_to_double (round_to_double (1 - round_to_double
                 (round_to_double (x2 - 0) / round_to_double (1 - 0))) * c)
                + round_to_double (round_to_double (round_to_double (x2 - 0)
                    / round_to_double (1 - 0)) * c)),
               round_to_double (round_to_double (round_to_double (1 - round_to_double
                 (round_to_double (x3 - 0) / round_to_double (1 - 0))) * c)
                + round_to_double (round_to_double (round_to_double (x3 - 0)
                    / round_to_double (1 - 0)) * c))]"
    if "in_unit [x0, x1, x2, x3]" for x0 x1 x2 x3 c
    using airfoil_interpolator_unit [of round_to_double "[x0, x1, x2, x3]" "replicate 4 c"] that
    by (simp add: round_to_double_one numeral_eq_Suc)
  have u: "in_unit [1 / 8, 3 / 8, 5 / 8, 7 / 8]"
    by (simp add: in_unit_def)
  have a: "1 - 1 / 8 = (7 / 8 :: real)" "1 - 3 / 8 = (5 / 8 :: real)"
    "1 - 5 / 8 = (3 / 8 :: real)" "1 - 7 / 8 = (1 / 8 :: real)"
    by simp_all
  have sums: "round_to_double (7926335344172073 / 2 ^ 59 + 1733885856537641 / 2 ^ 54)
     = 7926335344172073 / 2 ^ 56"
    "round_to_double (5944751508129055 / 2 ^ 57 + 2476979795053773 / 2 ^ 55)
     = 3963167672086037 / 2 ^ 55"
    using round_to_double_sums by (simp_all only: add.commute)
  have e: "(3963167672086037 / 2 ^ 55 :: real) = 7926335344172073 / 2 ^ 56 + 1 / 2 ^ 56"
    by simp
  show ?thesis
    unfolding g [OF u]
    by (simp only: diff_zero div_by_1 round_to_double_one round_to_double_eighths a
        round_to_double_products round_to_double_sums sums e)
qed

text \<open>
  Claim C9 fails on a segment with a control surface on which \<open>apply_control\<close> has not
  run. \<open>__init__\<close> builds the segment \<open>flap_wing\<close> from an input that leaves the airfoil
  to the default and declares a control surface; its airfoil assignment is one constant
  airfoil. \<open>_flap_eff\<close> does not exist yet, and \<open>get_cp_CL\<close> and \<open>get_cp_CD\<close>, called
  with a matrix of \<open>N = 2\<close> rows of three parameters, raise \<open>AttributeError\<close> where the
  claim has them return the airfoil's values. The rounding of the arithmetic plays no
  part.
\<close>

theorem constant_airfoil_flap_counterexample:
  "WingSegment_init midpoint_quad ''wing_right'' flap_input ''right'' ''SI'' example_airfoils (0, 0, 0)
     = Inr (WingSegment flap_wing [])
   \<and> constant_airfoil flap_wing example_airfoil
   \<and> (\<forall>fl. get_cp_CL fl flap_wing [[1, 0, 0], [2, 0, 0]]
             = Inl (AttributeError ''WingSegment object has no attribute _flap_eff''))
   \<and> (\<forall>fl. get_cp_CD fl flap_wing [[1, 0, 0], [2, 0, 0]]
             = Inl (AttributeError ''WingSegment object has no attribute _flap_eff''))"
proof -
  have "new_params False flap_wing [[1, 0, 0], [2, 0, 0]]
          = Inl (AttributeError ''WingSegment object has no attribute _flap_eff'')"
    by (simp add: new_params_def flap_wing_def flap_body_def example_body_def the_body_def bind_def
          first_three_def has_control_surface_def)
  then have "cp_query fl m False flap_wing [[1, 0, 0], [2, 0, 0]]
          = Inl (AttributeError ''WingSegment object has no attribute _flap_eff'')" for fl m
    by (rule cp_query_raises)
  with flap_wing_built flap_wing_constant_airfoil show ?thesis
    by (simp add: get_cp_CL_def get_cp_CD_def)
qed

text \<open>
  Claim C9, amended. On a segment whose airfoil assignment is one constant airfoil,
  called with a parameter matrix the query accepts (\<open>N\<close> rows of three entries and, on
  a segment with a control surface, \<open>_flap_eff\<close> in place), each of the seven
  coefficient queries returns, and what it returns at a control point is the value the
  airfoil's own method gives at that control point's row of the parameter matrix
  \<open>new_params\<close>, up to the rounding of the blend \<open>(1-d)*c + d*c\<close>: in arithmetic that
  rounds each operation with a relative error of at most \<open>u\<close>, monotonically and with 1
  representable, the relative error of the returned value is at most \<open>(1 + u)^3 - 1\<close>.
  In exact arithmetic (\<open>u = 0\<close>) it is that value. The arithmetic of doubles, overflow
  and underflow apart, rounds so with \<open>u = 2^-53\<close> (\<open>rounding_round_to_double\<close>), and
  there the value returned is not always the airfoil's
  (\<open>airfoil_interpolator_double_inexact\<close>). \<open>__init__\<close> builds such a segment
  from an input that names one airfoil or leaves the airfoil to the default
  (\<open>constant_airfoil_built\<close>), \<open>apply_control\<close> keeps it one
  (\<open>constant_airfoil_apply_control\<close>), and the matrices accepted are those of
  \<open>accepts_built\<close> and \<open>accepts_apply_control\<close>.
\<close>

theorem constant_airfoil_queries:
  assumes "constant_airfoil self af" and "rounding u fl"
  shows "(accepts False self prm \<longrightarrow>
            (\<exists>rows. new_params False self prm = Inr rows
               \<and> returns_near u (get_cp_CL fl self prm) (map (get_CL af) rows)
               \<and> returns_near u (get_cp_CLa fl self prm) (map (get_CLa af) rows)
               \<and> returns_near u (get_cp_aL0 fl self prm) (map (get_aL0 af) rows)
               \<and> returns_near u (get_cp_CD fl self prm) (map (get_CD af) rows)
               \<and> returns_near u (get_cp_CLRe fl self prm) (map (get_CLRe af) rows)
               \<and> returns_near u (get_cp_CLM fl self prm) (map (get_CLM af) rows)))
         \<and> (accepts True self prm \<longrightarrow>
            (\<exists>rows. new_params True self prm = Inr rows
               \<and> returns_near u (get_cp_Cm fl self prm) (map (get_Cm af) rows)))"
proof (intro conjI impI)
  assume "accepts False self prm"
  from new_params_accepts [OF this] obtain rows where r: "new_params False self prm = Inr rows" ..
  from cp_query_constant [OF assms r] r
  show "\<exists>rows. new_params False self prm = Inr rows
               \<and> returns_near u (get_cp_CL fl self prm) (map (get_CL af) rows)
               \<and> returns_near u (get_cp_CLa fl self prm) (map (get_CLa af) rows)
               \<and> returns_near u (get_cp_aL0 fl self prm) (map (get_aL0 af) rows)
               \<and> returns_near u (get_cp_CD fl self prm) (map (get_CD af) rows)
               \<and> returns_near u (get_cp_CLRe fl self prm) (map (get_CLRe af) rows)
               \<and> returns_near u (get_cp_CLM fl self prm) (map (get_CLM af) rows)"
    by (simp add: get_cp_CL_def get_cp_CLa_def get_cp_aL0_def get_cp_CD_def get_cp_CLRe_def
          get_cp_CLM_def)
next
  assume "accepts True self prm"
  from new_params_accepts [OF this] obtain rows where r: "new_params True self prm = Inr rows" ..
  from cp_query_constant [OF assms r] r
  show "\<exists>rows. new_params True self prm = Inr rows
               \<and> returns_near u (get_cp_Cm fl self prm) (map (get_Cm af) rows)"
    by (simp add: get_cp_Cm_def)
qed

theorem constant_airfoil_queries_witness:
  "constant_airfoil (fst (apply_control flap_wing [(''elevator'', 5)] Map.empty)) example_airfoil
   \<and> rounding 0 (\<lambda>x. x) \<and> rounding (1 / 2 ^ 53) round_to_double
   \<and> accepts False (fst (apply_control flap_wing [(''elevator'', 5)] Map.empty)) [[1, 0, 0], [2, 0, 0]]
   \<and> accepts True (fst (apply_control flap_wing [(''elevator'', 5)] Map.empty)) [[1, 0, 0], [2, 0, 0]]
   \<and> new_params False (fst (apply_control flap_wing [(''elevator'', 5)] Map.empty)) [[1, 0, 0], [2, 0, 0]]
       = Inr [[1, 0, 0, example_eta, radians 5], [2, 0, 0, example_eta, radians 5]]
   \<and> get_cp_CL (\<lambda>x. x) (fst (apply_control flap_wing [(''elevator'', 5)] Map.empty)) [[1, 0, 0], [2, 0, 0]]
       = Inr [2 * pi * (1 + example_eta * radians 5) - 1, 2 * pi * (2 + example_eta * radians 5) - 8]
   \<and> get_cp_CD (\<lambda>x. x) (fst (apply_control flap_wing [(''elevator'', 5)] Map.empty)) [[1, 0, 0], [2, 0, 0]]
       = Inr [1.01, 4.01]
   \<and> returns_near (1 / 2 ^ 53)
         (get_cp_CD round_to_double (fst (apply_control flap_wing [(''elevator'', 5)] Map.empty))
            [[1, 0, 0], [2, 0, 0]])
         [1.01, 4.01]
   \<and> get_cp_CLa (\<lambda>x. x) (fst (apply_control flap_wing [(''elevator'', 5)] Map.empty)) [[1, 0, 0], [2, 0, 0]]
       = Inr [2 * pi, 2 * pi]
   \<and> (\<exists>rows. new_params True (fst (apply_control flap_wing [(''elevator'', 5)] Map.empty))
                [[1, 0, 0], [2, 0, 0]] = Inr rows
         \<and> get_cp_Cm (\<lambda>x. x) (fst (apply_control flap_wing [(''elevator'', 5)] Map.empty))
              [[1, 0, 0], [2, 0, 0]] = Inr (map (get_Cm example_airfoil) rows))"
proof -
  let ?seg = "fst (apply_control flap_wing [(''elevator'', 5)] Map.empty)"
  let ?prm = "[[1, 0, 0], [2, 0, 0 :: real]]"
  have c: "constant_airfoil ?seg example_airfoil"
    by (rule constant_airfoil_apply_control [OF flap_wing_constant_airfoil])
  have i: "in_ID flap_input \<noteq> Some 0"
    by (simp add: flap_input_def example_input_def)
  have b: "body (fields (WingSegment flap_wing [])) = Some flap_body"
    by (simp add: flap_wing_def)
  have s: "snd (apply_control (fields (WingSegment flap_wing [])) [(''elevator'', 5)] Map.empty) = None"
    by (simp add: flap_wing_elevator)
  have n: "length ?prm = seg_N (params_part flap_body)" "list_all (\<lambda>r. length r = 3) ?prm"
    by (simp_all add: flap_body_def example_body_def)
  from accepts_apply_control [OF flap_wing_built i b s n]
  have a: "accepts False ?seg ?prm" "accepts True ?seg ?prm"
    by simp_all
  from constant_airfoil_queries [OF c rounding_round_to_double, of ?prm] a
  have d: "returns_near (1 / 2 ^ 53) (get_cp_CD round_to_double ?seg ?prm) [1.01, 4.01]"
    unfolding flap_wing_elevator_new_params by (auto simp: example_airfoil_def)
  from constant_airfoil_queries [OF c rounding_exact, of ?prm] a c d rounding_exact
    rounding_round_to_double
  show ?thesis
    unfolding returns_near_exact flap_wing_elevator_new_params
    by (auto simp: example_airfoil_def)
qed

end
